theory Spec2Isabelle
  imports Main "HOL-Library.AList"
begin

section \<open>JavaScript values\<close>

text \<open>
  The program is \<^verbatim>\<open>src/js/auth.js\<close>: a client-side account store kept in
  \<^verbatim>\<open>localStorage\<close> as JSON text. Its accounts are open JavaScript objects, so the
  model keeps them open too: an object is an association list from property names to
  values, looked up with \<open>map_of\<close> (the first binding of a name is the property).

  A JavaScript string is a sequence of UTF-16 code units; \<open>jstring\<close> is the list of
  their numbers (each below 65536). That is what \<^verbatim>\<open>password.length\<close> counts and
  what \<^verbatim>\<open>btoa\<close> inspects. Property names are HOL strings: every name the program
  mentions is ASCII, and names are only ever compared.

  The text that \<^verbatim>\<open>Date.prototype.toISOString\<close> yields for the instant \<open>t\<close>
  (milliseconds since the epoch) is the value \<open>JDate t\<close>; \<open>JStr\<close> holds every other
  string. Numbers are the integers. The values are those that survive
  \<^verbatim>\<open>JSON.stringify\<close> followed by \<^verbatim>\<open>JSON.parse\<close>, since that is how every
  account reaches and leaves the store.
\<close>

type_synonym jstring = "nat list"

datatype jv =
    JNull
  | JBool bool
  | JNum int
  | JStr jstring
  | JDate int
  | JArr "jv list"
  | JObj "(string \<times> jv) list"

type_synonym obj = "(string \<times> jv) list"

definition js :: "string \<Rightarrow> jstring" where
  "js s = map of_char s"

text \<open>Exceptions the program can throw; \<open>NotModelled\<close> marks a coercion of the
  language that this development does not cover, so that no theorem speaks about it.\<close>

datatype exn = InvalidCharacterError | TypeError | RangeError | NotModelled

text \<open>\<^verbatim>\<open>!v\<close> is \<open>\<not> truthy v\<close>; a missing property is \<^verbatim>\<open>undefined\<close>, here \<open>None\<close>.\<close>

fun truthy :: "jv \<Rightarrow> bool" where
  "truthy JNull = False"
| "truthy (JBool b) = b"
| "truthy (JNum n) = (n \<noteq> 0)"
| "truthy (JStr s) = (s \<noteq> [])"
| "truthy (JDate t) = True"
| "truthy (JArr xs) = True"
| "truthy (JObj kvs) = True"

definition truthyo :: "jv option \<Rightarrow> bool" where
  "truthyo v = (case v of None \<Rightarrow> False | Some x \<Rightarrow> truthy x)"

text \<open>\<^verbatim>\<open>a === b\<close>. Primitives compare by value. Arrays and objects compare by
  reference, and every comparison of the program has operands that come from different
  \<^verbatim>\<open>JSON.parse\<close> calls or from the caller and the store, so two of them are never
  the same reference.\<close>

fun primitive :: "jv option \<Rightarrow> bool" where
  "primitive (Some (JArr xs)) = False"
| "primitive (Some (JObj kvs)) = False"
| "primitive v = True"

definition seq :: "jv option \<Rightarrow> jv option \<Rightarrow> bool" where
  "seq a b = (a = b \<and> primitive a)"

text \<open>\<^verbatim>\<open>v || d\<close>\<close>

definition orElse :: "jv option \<Rightarrow> jv \<Rightarrow> jv" where
  "orElse v d = (case v of None \<Rightarrow> d | Some x \<Rightarrow> if truthy x then x else d)"

definition strOrNull :: "jstring \<Rightarrow> jv" where
  "strOrNull s = (if s \<noteq> [] then JStr s else JNull)"

subsection \<open>Objects\<close>

definition getp :: "obj \<Rightarrow> string \<Rightarrow> jv option" where
  "getp ob k = map_of ob k"

definition setp :: "obj \<Rightarrow> string \<Rightarrow> jv \<Rightarrow> obj" where
  "setp ob k v = AList.update k v ob"

text \<open>\<^verbatim>\<open>Object.assign(target, source)\<close>, also the spread \<^verbatim>\<open>...source\<close> inside an
  object literal: every property of the source is written to the target.\<close>

definition assign :: "obj \<Rightarrow> obj \<Rightarrow> obj" where
  "assign target source = foldr (\<lambda>(k, v) acc. AList.update k v acc) source target"

text \<open>Decimal text of an integer, as \<^verbatim>\<open>'user_' + Date.now()\<close> produces it.\<close>

fun digits :: "nat \<Rightarrow> jstring" where
  "digits n = (if n < 10 then [48 + n] else digits (n div 10) @ [48 + n mod 10])"

declare digits.simps [simp del]

definition showInt :: "int \<Rightarrow> jstring" where
  "showInt i = (if i < 0 then 45 # digits (nat (- i)) else digits (nat i))"

section \<open>CredentialCodec: hashPassword, verifyPassword\<close>

text \<open>
  \<^verbatim>\<open>btoa\<close> reads each code unit as one byte and throws
  \<^verbatim>\<open>InvalidCharacterError\<close> when a code unit is above 255. The output is standard
  base64 with \<^verbatim>\<open>=\<close> padding.
\<close>

definition b64char :: "nat \<Rightarrow> nat" where
  "b64char i =
     (if i < 26 then 65 + i
      else if i < 52 then 97 + (i - 26)
      else if i < 62 then 48 + (i - 52)
      else if i = 62 then 43 else 47)"

fun b64groups :: "nat list \<Rightarrow> nat list" where
  "b64groups [] = []"
| "b64groups [a] = [b64char (a div 4), b64char ((a mod 4) * 16), 61, 61]"
| "b64groups [a, b] =
     [b64char (a div 4), b64char ((a mod 4) * 16 + b div 16), b64char ((b mod 16) * 4), 61]"
| "b64groups (a # b # c # r) =
     [b64char (a div 4), b64char ((a mod 4) * 16 + b div 16),
      b64char ((b mod 16) * 4 + c div 64), b64char (c mod 64)] @ b64groups r"

definition btoa :: "jstring \<Rightarrow> exn + jstring" where
  "btoa s = (if list_all (\<lambda>c. c \<le> 255) s then Inr (b64groups s)
             else Inl InvalidCharacterError)"

text \<open>\<^verbatim>\<open>function hashPassword(password) { return btoa(password + 'saju2026_salt'); }\<close>\<close>

definition hashPassword :: "jstring \<Rightarrow> exn + jstring" where
  "hashPassword password = btoa (password @ js ''saju2026_salt'')"

text \<open>\<^verbatim>\<open>return hashPassword(inputPassword) === hashedPassword;\<close>\<close>

definition verifyPassword :: "jstring \<Rightarrow> jv option \<Rightarrow> exn + bool" where
  "verifyPassword inputPassword hashedPassword =
     (case hashPassword inputPassword of
        Inl e \<Rightarrow> Inl e
      | Inr h \<Rightarrow> Inr (seq (Some (JStr h)) hashedPassword))"

section \<open>Validation\<close>

text \<open>
  The three validators. The two regular expressions are sequences of character classes
  with a quantifier each; \<open>rmatch\<close> returns every remainder that matching a prefix can
  leave, and \<^verbatim>\<open>regex.test\<close> with \<^verbatim>\<open>^\<close> and \<^verbatim>\<open>$\<close> asks for the empty remainder.
\<close>

datatype quant = One | Opt | Many1 | Times nat

type_synonym rx = "((nat \<Rightarrow> bool) \<times> quant) list"

fun many1 :: "(nat \<Rightarrow> bool) \<Rightarrow> jstring \<Rightarrow> jstring list" where
  "many1 p [] = []"
| "many1 p (c # r) = (if p c then r # many1 p r else [])"

fun exactly :: "nat \<Rightarrow> (nat \<Rightarrow> bool) \<Rightarrow> jstring \<Rightarrow> jstring list" where
  "exactly 0 p s = [s]"
| "exactly (Suc n) p [] = []"
| "exactly (Suc n) p (c # r) = (if p c then exactly n p r else [])"

fun item :: "(nat \<Rightarrow> bool) \<times> quant \<Rightarrow> jstring \<Rightarrow> jstring list" where
  "item (p, One) s = exactly 1 p s"
| "item (p, Opt) s = exactly 1 p s @ [s]"
| "item (p, Many1) s = many1 p s"
| "item (p, Times n) s = exactly n p s"

fun rmatch :: "rx \<Rightarrow> jstring \<Rightarrow> jstring list" where
  "rmatch [] s = [s]"
| "rmatch (i # is) s = concat (map (rmatch is) (item i s))"

definition test :: "rx \<Rightarrow> jstring \<Rightarrow> bool" where
  "test r s = ([] \<in> set (rmatch r s))"

text \<open>\<^verbatim>\<open>\s\<close>: the white space and line terminator code units of ECMAScript.\<close>

definition isSpace :: "nat \<Rightarrow> bool" where
  "isSpace c = (c \<in> {9, 10, 11, 12, 13, 32, 160, 5760, 8232, 8233, 8239, 8287, 12288, 65279}
                \<or> (8192 \<le> c \<and> c \<le> 8202))"

definition notSpaceAt :: "nat \<Rightarrow> bool" where
  "notSpaceAt c = (\<not> isSpace c \<and> c \<noteq> 64)"

definition isDigit :: "nat \<Rightarrow> bool" where
  "isDigit c = (48 \<le> c \<and> c \<le> 57)"

definition lit :: "nat \<Rightarrow> nat \<Rightarrow> bool" where
  "lit k c = (c = k)"

text \<open>\<^verbatim>\<open>/^[^\s@]+@[^\s@]+\.[^\s@]+$/\<close>\<close>

definition emailRegex :: rx where
  "emailRegex = [(notSpaceAt, Many1), (lit 64, One), (notSpaceAt, Many1), (lit 46, One),
                 (notSpaceAt, Many1)]"

definition isValidEmail :: "jstring \<Rightarrow> bool" where
  "isValidEmail email = test emailRegex email"

text \<open>\<^verbatim>\<open>return password.length >= 8;\<close>\<close>

definition isValidPassword :: "jstring \<Rightarrow> bool" where
  "isValidPassword password = (length password \<ge> 8)"

text \<open>\<^verbatim>\<open>/^01[0-9]-?[0-9]{4}-?[0-9]{4}$/\<close>\<close>

definition phoneRegex :: rx where
  "phoneRegex = [(lit 48, One), (lit 49, One), (isDigit, One), (lit 45, Opt),
                 (isDigit, Times 4), (lit 45, Opt), (isDigit, Times 4)]"

definition isValidPhone :: "jstring \<Rightarrow> bool" where
  "isValidPhone phone = test phoneRegex phone"

section \<open>Dates\<close>

text \<open>
  The time arithmetic of ECMAScript (Day, TimeWithinDay, DaysInYear, DayFromYear,
  YearFromTime, MonthFromTime, DateFromTime, MakeDay, MakeDate), on integers of
  milliseconds. \<open>YearFromDay d\<close> is the largest year whose first day is not after day
  \<open>d\<close>, found by walking from 1970.
\<close>

definition msPerDay :: int where
  "msPerDay = 86400000"

definition Day :: "int \<Rightarrow> int" where
  "Day t = t div msPerDay"

definition TimeWithinDay :: "int \<Rightarrow> int" where
  "TimeWithinDay t = t mod msPerDay"

definition DaysInYear :: "int \<Rightarrow> int" where
  "DaysInYear y =
     (if y mod 4 \<noteq> 0 then 365 else if y mod 100 \<noteq> 0 then 366
      else if y mod 400 \<noteq> 0 then 365 else 366)"

definition DayFromYear :: "int \<Rightarrow> int" where
  "DayFromYear y =
     365 * (y - 1970) + (y - 1969) div 4 - (y - 1901) div 100 + (y - 1601) div 400"

function yearUp :: "int \<Rightarrow> int \<Rightarrow> int" where
  "yearUp d y = (if d < DayFromYear (y + 1) then y else yearUp d (y + 1))"
  by pat_completeness auto
termination
proof (relation "measure (\<lambda>(d, y). nat (d + 1 - DayFromYear (y + 1)))")
  show "wf (measure (\<lambda>(d, y). nat (d + 1 - DayFromYear (y + 1))))" by simp
next
  fix d y :: int
  assume stop: "\<not> d < DayFromYear (y + 1)"
  define z where "z = y + 1"
  define A B C where "A = (z - 1969) div 4" and "B = (z - 1901) div 100"
    and "C = (z - 1601) div 400"
  define A' B' C' where "A' = (z + 1 - 1969) div 4" and "B' = (z + 1 - 1901) div 100"
    and "C' = (z + 1 - 1601) div 400"
  have a: "A \<le> A'" unfolding A_def A'_def by (rule zdiv_mono1) simp_all
  have c: "C \<le> C'" unfolding C_def C'_def by (rule zdiv_mono1) simp_all
  have "B' \<le> (z - 1901 + 100) div 100" unfolding B'_def by (rule zdiv_mono1) simp_all
  then have b: "B' \<le> B + 1" unfolding B_def by simp
  have this_year: "DayFromYear z = 365 * (z - 1970) + A - B + C"
    by (simp only: DayFromYear_def A_def B_def C_def)
  have next_year: "DayFromYear (z + 1) = 365 * (z + 1 - 1970) + A' - B' + C'"
    by (simp only: DayFromYear_def A'_def B'_def C'_def)
  have "DayFromYear z < DayFromYear (z + 1)"
    unfolding this_year next_year using a b c by simp
  then show "((d, y + 1), (d, y)) \<in> measure (\<lambda>(d, y). nat (d + 1 - DayFromYear (y + 1)))"
    using stop by (simp add: z_def)
qed

function yearDown :: "int \<Rightarrow> int \<Rightarrow> int" where
  "yearDown d y = (if DayFromYear y \<le> d then y else yearDown d (y - 1))"
  by pat_completeness auto
termination
proof (relation "measure (\<lambda>(d, y). nat (DayFromYear y - d))")
  show "wf (measure (\<lambda>(d, y). nat (DayFromYear y - d)))" by simp
next
  fix d y :: int
  assume go: "\<not> DayFromYear y \<le> d"
  define z where "z = y - 1"
  define A B C where "A = (z - 1969) div 4" and "B = (z - 1901) div 100"
    and "C = (z - 1601) div 400"
  define A' B' C' where "A' = (z + 1 - 1969) div 4" and "B' = (z + 1 - 1901) div 100"
    and "C' = (z + 1 - 1601) div 400"
  have a: "A \<le> A'" unfolding A_def A'_def by (rule zdiv_mono1) simp_all
  have c: "C \<le> C'" unfolding C_def C'_def by (rule zdiv_mono1) simp_all
  have "B' \<le> (z - 1901 + 100) div 100" unfolding B'_def by (rule zdiv_mono1) simp_all
  then have b: "B' \<le> B + 1" unfolding B_def by simp
  have this_year: "DayFromYear z = 365 * (z - 1970) + A - B + C"
    by (simp only: DayFromYear_def A_def B_def C_def)
  have next_year: "DayFromYear (z + 1) = 365 * (z + 1 - 1970) + A' - B' + C'"
    by (simp only: DayFromYear_def A'_def B'_def C'_def)
  have "DayFromYear z < DayFromYear (z + 1)"
    unfolding this_year next_year using a b c by simp
  then show "((d, y - 1), (d, y)) \<in> measure (\<lambda>(d, y). nat (DayFromYear y - d))"
    using go by (simp add: z_def)
qed

declare yearUp.simps [simp del] yearDown.simps [simp del]

definition YearFromDay :: "int \<Rightarrow> int" where
  "YearFromDay d = (if 0 \<le> d then yearUp d 1970 else yearDown d 1969)"

definition InLeapYear :: "int \<Rightarrow> int" where
  "InLeapYear y = (if DaysInYear y = 366 then 1 else 0)"

text \<open>The month (0 to 11) of the day \<open>dw\<close> within a year, \<open>l\<close> being 1 in a leap year.\<close>

definition MonthFromDay :: "int \<Rightarrow> int \<Rightarrow> int" where
  "MonthFromDay dw l =
     (if dw < 31 then 0 else if dw < 59 + l then 1 else if dw < 90 + l then 2
      else if dw < 120 + l then 3 else if dw < 151 + l then 4 else if dw < 181 + l then 5
      else if dw < 212 + l then 6 else if dw < 243 + l then 7 else if dw < 273 + l then 8
      else if dw < 304 + l then 9 else if dw < 334 + l then 10 else 11)"

text \<open>The day within the year on which month \<open>m\<close> starts.\<close>

definition monthStart :: "int \<Rightarrow> int \<Rightarrow> int" where
  "monthStart l m =
     (if m = 0 then 0 else if m = 1 then 31 else if m = 2 then 59 + l
      else if m = 3 then 90 + l else if m = 4 then 120 + l else if m = 5 then 151 + l
      else if m = 6 then 181 + l else if m = 7 then 212 + l else if m = 8 then 243 + l
      else if m = 9 then 273 + l else if m = 10 then 304 + l else 334 + l)"

definition YearFromTime :: "int \<Rightarrow> int" where
  "YearFromTime t = YearFromDay (Day t)"

definition DayWithinYear :: "int \<Rightarrow> int" where
  "DayWithinYear t = Day t - DayFromYear (YearFromTime t)"

definition MonthFromTime :: "int \<Rightarrow> int" where
  "MonthFromTime t = MonthFromDay (DayWithinYear t) (InLeapYear (YearFromTime t))"

definition DateFromTime :: "int \<Rightarrow> int" where
  "DateFromTime t =
     DayWithinYear t - monthStart (InLeapYear (YearFromTime t)) (MonthFromTime t) + 1"

definition MakeDay :: "int \<Rightarrow> int \<Rightarrow> int \<Rightarrow> int" where
  "MakeDay year month date =
     (let ym = year + month div 12; mn = month mod 12
      in DayFromYear ym + monthStart (InLeapYear ym) mn + date - 1)"

definition MakeDate :: "int \<Rightarrow> int \<Rightarrow> int" where
  "MakeDate day time = day * msPerDay + time"

text \<open>
  The environment of one call: the clock (\<^verbatim>\<open>new Date()\<close>, \<^verbatim>\<open>Date.now()\<close>; the reads
  of one call return one instant, a valid time value), the time zone of the machine, and
  the text that \<^verbatim>\<open>Math.random().toString(36).substr(2, n)\<close> returns.

  The time zone is the pair of functions that ECMAScript calls LocalTZA, in
  milliseconds: \<open>offsetUTC e t\<close> is the offset of local time from UTC in force at the
  instant \<open>t\<close>, and \<open>offsetLocal e t\<close> is the offset with which the local time \<open>t\<close> is
  read back as an instant. With daylight saving both change with \<open>t\<close>.
\<close>

record env =
  now :: int
  offsetUTC :: "int \<Rightarrow> int"
  offsetLocal :: "int \<Rightarrow> int"
  rnd :: jstring

definition LocalTime :: "env \<Rightarrow> int \<Rightarrow> int" where
  "LocalTime e t = t + offsetUTC e t"

definition UTC :: "env \<Rightarrow> int \<Rightarrow> int" where
  "UTC e t = t - offsetLocal e t"

text \<open>A time value is at most 8.64e15 milliseconds from the epoch; \<open>TimeClip\<close> turns
  any other number into the invalid date, \<open>None\<close>.\<close>

definition maxTime :: int where
  "maxTime = 8640000000000000"

definition TimeClip :: "int \<Rightarrow> int option" where
  "TimeClip t = (if \<bar>t\<bar> \<le> maxTime then Some t else None)"

text \<open>\<^verbatim>\<open>d.getMonth()\<close> and the time value \<^verbatim>\<open>d\<close> holds after \<^verbatim>\<open>d.setMonth(month)\<close>,
  for a valid date \<^verbatim>\<open>d\<close>.\<close>

definition getMonth :: "env \<Rightarrow> int \<Rightarrow> int" where
  "getMonth e t = MonthFromTime (LocalTime e t)"

definition setMonth :: "env \<Rightarrow> int \<Rightarrow> int \<Rightarrow> int option" where
  "setMonth e t month =
     (let lt = LocalTime e t
      in TimeClip
           (UTC e (MakeDate (MakeDay (YearFromTime lt) month (DateFromTime lt))
                     (TimeWithinDay lt))))"

text \<open>\<^verbatim>\<open>d.toISOString()\<close> throws \<^verbatim>\<open>RangeError\<close> on the invalid date.\<close>

definition toISOString :: "int option \<Rightarrow> exn + jv" where
  "toISOString d = (case d of None \<Rightarrow> Inl RangeError | Some t \<Rightarrow> Inr (JDate t))"

text \<open>\<^verbatim>\<open>d.toDateString()\<close> names the local calendar day of \<open>d\<close>; two instants have the
  same text exactly when they have the same local day number, which stands for the text.\<close>

definition toDateString :: "env \<Rightarrow> int \<Rightarrow> int" where
  "toDateString e t = Day (LocalTime e t)"

text \<open>
  \<^verbatim>\<open>new Date(v)\<close>, \<open>None\<close> being the invalid date. A timestamp text gives its instant
  back, a number is the instant, \<^verbatim>\<open>null\<close> and booleans are numbers, \<^verbatim>\<open>undefined\<close>
  is invalid. Parsing any other text is left out.
\<close>

fun newDate :: "jv option \<Rightarrow> exn + int option" where
  "newDate None = Inr None"
| "newDate (Some JNull) = Inr (Some 0)"
| "newDate (Some (JBool b)) = Inr (Some (if b then 1 else 0))"
| "newDate (Some (JNum n)) = Inr (TimeClip n)"
| "newDate (Some (JDate t)) = Inr (Some t)"
| "newDate (Some (JStr s)) = Inl NotModelled"
| "newDate (Some (JArr xs)) = Inl NotModelled"
| "newDate (Some (JObj kvs)) = Inl NotModelled"

section \<open>The store and the session\<close>

text \<open>
  \<^verbatim>\<open>localStorage\<close> holds two keys: the array of accounts and the current user. Both
  are JSON text that every function parses afresh, so a function works on its own copy
  and the store changes only in \<open>saveUser\<close>, \<open>setCurrentUser\<close> and \<open>logout\<close>. An
  absent key reads as the empty array, or as no current user. Only \<open>saveUser\<close> writes
  accounts and only \<open>setCurrentUser\<close> writes the current user, and both write objects.
\<close>

record state =
  users :: "obj list"
  session :: "obj option"

text \<open>The messages of the result objects, named by what they say; the number is the
  line of the source that returns it.\<close>

datatype message =
    MsgRequired \<comment> \<open>96: fill in all required fields\<close>
  | MsgBadEmail \<comment> \<open>100: not a proper email format\<close>
  | MsgShortPassword \<comment> \<open>104: the password needs at least 8 characters\<close>
  | MsgBadPhone \<comment> \<open>108: not a proper phone number format\<close>
  | MsgEmailTaken \<comment> \<open>113: this email is already registered\<close>
  | MsgRegistered \<comment> \<open>139: registration is complete\<close>
  | MsgEnterCredentials \<comment> \<open>147: enter email and password\<close>
  | MsgUnknownEmail \<comment> \<open>154 and 348: this email is not registered\<close>
  | MsgWrongPassword \<comment> \<open>158: the password is not correct\<close>
  | MsgLoggedIn \<comment> \<open>167: logged in\<close>
  | MsgLoggedOut \<comment> \<open>175: logged out\<close>
  | MsgUserNotFound \<comment> \<open>214, 266, 301, 326: the user cannot be found\<close>
  | MsgEmailInUse \<comment> \<open>223: this email is already in use\<close>
  | MsgUpdated \<comment> \<open>237: the information has been updated\<close>
  | MsgTempPasswordSent \<comment> \<open>359: a temporary password has been sent by email\<close>
  | NoMessage \<comment> \<open>a success object without a message\<close>

text \<open>\<^verbatim>\<open>{ success: false, message }\<close> and \<^verbatim>\<open>{ success: true, message, ... }\<close>\<close>

datatype 'a result = Failure message | Success message 'a

definition getUsers :: "state \<Rightarrow> obj list" where
  "getUsers st = users st"

text \<open>\<^verbatim>\<open>users.find(u => u[k] === v)\<close> and \<^verbatim>\<open>users.findIndex(...)\<close>\<close>

definition findBy :: "string \<Rightarrow> jv option \<Rightarrow> obj list \<Rightarrow> obj option" where
  "findBy k v us = find (\<lambda>u. seq (getp u k) v) us"

fun findIndex :: "('a \<Rightarrow> bool) \<Rightarrow> 'a list \<Rightarrow> nat option" where
  "findIndex P [] = None"
| "findIndex P (x # xs) = (if P x then Some 0 else map_option Suc (findIndex P xs))"

definition saveUser :: "state \<Rightarrow> obj \<Rightarrow> state" where
  "saveUser st user =
     (case findIndex (\<lambda>u. seq (getp u ''id'') (getp user ''id'')) (getUsers st) of
        Some existingIndex \<Rightarrow> st\<lparr>users := (getUsers st)[existingIndex := user]\<rparr>
      | None \<Rightarrow> st\<lparr>users := getUsers st @ [user]\<rparr>)"

definition generateUserId :: "env \<Rightarrow> jstring" where
  "generateUserId e = js ''user_'' @ showInt (now e) @ js ''_'' @ rnd e"

text \<open>\<^verbatim>\<open>const { password, ...sanitized } = user; return sanitized;\<close>\<close>

definition sanitizeUser :: "obj \<Rightarrow> obj" where
  "sanitizeUser user = AList.delete ''password'' user"

definition setCurrentUser :: "state \<Rightarrow> obj \<Rightarrow> state" where
  "setCurrentUser st user = st\<lparr>session := Some (sanitizeUser user)\<rparr>"

definition getCurrentUser :: "state \<Rightarrow> obj option" where
  "getCurrentUser st = session st"

definition isLoggedIn :: "state \<Rightarrow> bool" where
  "isLoggedIn st = (getCurrentUser st \<noteq> None)"

definition logout :: "state \<Rightarrow> state \<times> unit result" where
  "logout st = (st\<lparr>session := None\<rparr>, Success MsgLoggedOut ())"

section \<open>AccountService: register, login, updateUser, resetPassword\<close>

text \<open>
  The argument of \<open>register\<close>. The four fields that the function validates are strings,
  as the sign-up form supplies them; the empty string also stands for a field that is
  missing, which the code treats alike (\<^verbatim>\<open>!email\<close>, \<^verbatim>\<open>phone && ...\<close>,
  \<^verbatim>\<open>phone || null\<close>). The other four are stored as they come.
\<close>

record userData =
  email :: jstring
  password :: jstring
  name :: jstring
  phone :: jstring
  birthDate :: "jv option"
  birthTime :: "jv option"
  gender :: "jv option"
  calendarType :: "jv option"

definition newUser :: "env \<Rightarrow> userData \<Rightarrow> jstring \<Rightarrow> obj" where
  "newUser e ud hashed =
     [(''id'', JStr (generateUserId e)),
      (''email'', JStr (email ud)),
      (''password'', JStr hashed),
      (''name'', JStr (name ud)),
      (''phone'', strOrNull (phone ud)),
      (''birthDate'', orElse (birthDate ud) JNull),
      (''birthTime'', orElse (birthTime ud) JNull),
      (''gender'', orElse (gender ud) JNull),
      (''calendarType'', orElse (calendarType ud) (JStr (js ''solar''))),
      (''membershipType'', JStr (js ''free'')),
      (''premiumExpiry'', JNull),
      (''createdAt'', JDate (now e)),
      (''lastLogin'', JDate (now e)),
      (''sajuData'', JNull),
      (''purchaseHistory'', JArr []),
      (''consultationHistory'', JArr [])]"

definition register :: "env \<Rightarrow> state \<Rightarrow> userData \<Rightarrow> exn + state \<times> obj result" where
  "register e st ud =
     (if email ud = [] \<or> password ud = [] \<or> name ud = [] then Inr (st, Failure MsgRequired)
      else if \<not> isValidEmail (email ud) then Inr (st, Failure MsgBadEmail)
      else if \<not> isValidPassword (password ud) then Inr (st, Failure MsgShortPassword)
      else if phone ud \<noteq> [] \<and> \<not> isValidPhone (phone ud) then Inr (st, Failure MsgBadPhone)
      else if findBy ''email'' (Some (JStr (email ud))) (getUsers st) \<noteq> None
        then Inr (st, Failure MsgEmailTaken)
      else
        (case hashPassword (password ud) of
           Inl x \<Rightarrow> Inl x
         | Inr hashed \<Rightarrow>
             Inr (saveUser st (newUser e ud hashed),
                  Success MsgRegistered (sanitizeUser (newUser e ud hashed)))))"

definition login :: "env \<Rightarrow> state \<Rightarrow> jstring \<Rightarrow> jstring \<Rightarrow> exn + state \<times> obj result" where
  "login e st email' password' =
     (if email' = [] \<or> password' = [] then Inr (st, Failure MsgEnterCredentials)
      else
        (case findBy ''email'' (Some (JStr email')) (getUsers st) of
           None \<Rightarrow> Inr (st, Failure MsgUnknownEmail)
         | Some user \<Rightarrow>
             (case verifyPassword password' (getp user ''password'') of
                Inl x \<Rightarrow> Inl x
              | Inr ok \<Rightarrow>
                  if \<not> ok then Inr (st, Failure MsgWrongPassword)
                  else
                    (let user' = setp user ''lastLogin'' (JDate (now e))
                     in Inr (setCurrentUser (saveUser st user') user',
                             Success MsgLoggedIn (sanitizeUser user'))))))"

text \<open>
  \<^verbatim>\<open>if (updates.password) { updates.password = hashPassword(updates.password); }\<close>
  A password that is a string is hashed; a truthy one that is no string would first be
  turned into text, which is left out.
\<close>

definition hashUpdates :: "obj \<Rightarrow> exn + obj" where
  "hashUpdates updates =
     (case getp updates ''password'' of
        None \<Rightarrow> Inr updates
      | Some v \<Rightarrow>
          if \<not> truthy v then Inr updates
          else
            (case v of
               JStr p \<Rightarrow>
                 (case hashPassword p of
                    Inl x \<Rightarrow> Inl x
                  | Inr hashed \<Rightarrow> Inr (setp updates ''password'' (JStr hashed)))
             | _ \<Rightarrow> Inl NotModelled))"

text \<open>The tail of \<open>updateUser\<close> and \<open>saveSajuData\<close>:
  \<^verbatim>\<open>if (currentUser && currentUser.id === userId) { setCurrentUser(user); }\<close>\<close>

definition republish :: "state \<Rightarrow> jv \<Rightarrow> obj \<Rightarrow> state" where
  "republish st userId user =
     (case getCurrentUser st of
        None \<Rightarrow> st
      | Some currentUser \<Rightarrow>
          if seq (getp currentUser ''id'') (Some userId) then setCurrentUser st user else st)"

definition updateUser :: "state \<Rightarrow> jv \<Rightarrow> obj \<Rightarrow> exn + state \<times> obj result" where
  "updateUser st userId updates =
     (case findBy ''id'' (Some userId) (getUsers st) of
        None \<Rightarrow> Inr (st, Failure MsgUserNotFound)
      | Some user \<Rightarrow>
          (case hashUpdates updates of
             Inl x \<Rightarrow> Inl x
           | Inr updates' \<Rightarrow>
               if truthyo (getp updates' ''email'')
                  \<and> \<not> seq (getp updates' ''email'') (getp user ''email'')
                  \<and> list_ex (\<lambda>u. seq (getp u ''email'') (getp updates' ''email'')
                                  \<and> \<not> seq (getp u ''id'') (Some userId)) (getUsers st)
               then Inr (st, Failure MsgEmailInUse)
               else
                 (let user' = assign user updates'
                  in Inr (republish (saveUser st user') userId user',
                          Success MsgUpdated (sanitizeUser user')))))"

definition saveSajuData :: "env \<Rightarrow> state \<Rightarrow> jv \<Rightarrow> jv \<Rightarrow> state \<times> unit result" where
  "saveSajuData e st userId sajuData =
     (case findBy ''id'' (Some userId) (getUsers st) of
        Some user \<Rightarrow>
          (let user' = setp (setp user ''sajuData'' sajuData) ''sajuCalculatedAt'' (JDate (now e))
           in (republish (saveUser st user') userId user', Success NoMessage ()))
      | None \<Rightarrow> (st, Failure MsgUserNotFound))"

definition resetPassword :: "env \<Rightarrow> state \<Rightarrow> jstring \<Rightarrow> exn + state \<times> jstring result" where
  "resetPassword e st email' =
     (case findBy ''email'' (Some (JStr email')) (getUsers st) of
        None \<Rightarrow> Inr (st, Failure MsgUnknownEmail)
      | Some user \<Rightarrow>
          (let tempPassword = js ''temp'' @ rnd e
           in case hashPassword tempPassword of
                Inl x \<Rightarrow> Inl x
              | Inr hashed \<Rightarrow>
                  Inr (saveUser st (setp user ''password'' (JStr hashed)),
                       Success MsgTempPasswordSent tempPassword)))"

section \<open>MembershipPolicy: isPremiumUser\<close>

definition isPremiumUser :: "env \<Rightarrow> state \<Rightarrow> exn + bool" where
  "isPremiumUser e st =
     (case getCurrentUser st of
        None \<Rightarrow> Inr False
      | Some user \<Rightarrow>
          if seq (getp user ''membershipType'') (Some (JStr (js ''premium''))) then
            (if \<not> truthyo (getp user ''premiumExpiry'') then Inr True
             else
               (case newDate (getp user ''premiumExpiry'') of
                  Inl x \<Rightarrow> Inl x
                | Inr None \<Rightarrow> Inr False
                | Inr (Some expiry) \<Rightarrow> Inr (expiry > now e)))
          else Inr False)"

section \<open>HistoryLedger\<close>

text \<open>\<^verbatim>\<open>if (!user[k]) { user[k] = []; }\<close> and then \<^verbatim>\<open>user[k].unshift(...)\<close>, which
  only an array has.\<close>

definition historyOf :: "obj \<Rightarrow> string \<Rightarrow> exn + jv list" where
  "historyOf user k =
     (case getp user k of
        None \<Rightarrow> Inr []
      | Some v \<Rightarrow>
          if \<not> truthy v then Inr []
          else (case v of JArr xs \<Rightarrow> Inr xs | _ \<Rightarrow> Inl TypeError))"

text \<open>\<^verbatim>\<open>{ id: prefix + Date.now(), ...input, date: new Date().toISOString() }\<close>\<close>

definition newRecord :: "env \<Rightarrow> string \<Rightarrow> obj \<Rightarrow> obj" where
  "newRecord e prefix input =
     setp (assign [(''id'', JStr (js prefix @ showInt (now e)))] input) ''date'' (JDate (now e))"

text \<open>
  \<open>addPurchaseHistory\<close> saves the account with the new record first and then, for a
  premium purchase, computes the expiry and calls \<open>updateUser\<close>. An exception of the
  second half (\<^verbatim>\<open>expiryDate.toISOString()\<close> on a date that \<^verbatim>\<open>setMonth\<close> has pushed
  out of range) is thrown after that write, so the exception comes with the state that
  it leaves behind.
\<close>

definition addPurchaseHistory ::
    "env \<Rightarrow> state \<Rightarrow> jv \<Rightarrow> obj \<Rightarrow> exn \<times> state + state \<times> obj result" where
  "addPurchaseHistory e st userId purchase =
     (case findBy ''id'' (Some userId) (getUsers st) of
        Some user \<Rightarrow>
          (case historyOf user ''purchaseHistory'' of
             Inl x \<Rightarrow> Inl (x, st)
           | Inr history \<Rightarrow>
               (let purchaseRecord = newRecord e ''purchase_'' purchase;
                    user' = setp user ''purchaseHistory'' (JArr (JObj purchaseRecord # history));
                    st' = saveUser st user';
                    yearly = seq (getp purchase ''type'') (Some (JStr (js ''premium_yearly'')))
                in if seq (getp purchase ''type'') (Some (JStr (js ''premium_monthly''))) \<or> yearly
                   then
                     (let expiryDate =
                            setMonth e (now e) (getMonth e (now e) + (if yearly then 12 else 1))
                      in case toISOString expiryDate of
                           Inl x \<Rightarrow> Inl (x, st')
                         | Inr premiumExpiry \<Rightarrow>
                             (case updateUser st' userId
                                     [(''membershipType'', JStr (js ''premium'')),
                                      (''premiumExpiry'', premiumExpiry)] of
                                Inl x \<Rightarrow> Inl (x, st')
                              | Inr (st'', r) \<Rightarrow> Inr (st'', Success NoMessage purchaseRecord)))
                   else Inr (st', Success NoMessage purchaseRecord)))
      | None \<Rightarrow> Inr (st, Failure MsgUserNotFound))"

definition addConsultationHistory ::
    "env \<Rightarrow> state \<Rightarrow> jv \<Rightarrow> obj \<Rightarrow> exn + state \<times> obj result" where
  "addConsultationHistory e st userId consultation =
     (case findBy ''id'' (Some userId) (getUsers st) of
        Some user \<Rightarrow>
          (case historyOf user ''consultationHistory'' of
             Inl x \<Rightarrow> Inl x
           | Inr history \<Rightarrow>
               (let consultationRecord = newRecord e ''consult_'' consultation;
                    user' = setp user ''consultationHistory''
                              (JArr (JObj consultationRecord # history))
                in Inr (saveUser st user', Success NoMessage consultationRecord)))
      | None \<Rightarrow> Inr (st, Failure MsgUserNotFound))"

text \<open>\<^verbatim>\<open>c.date\<close> for an element \<^verbatim>\<open>c\<close> of the history: a property read throws on
  \<^verbatim>\<open>null\<close> and finds nothing on a value that is no object.\<close>

definition dateOfEntry :: "jv \<Rightarrow> exn + jv option" where
  "dateOfEntry c =
     (case c of JNull \<Rightarrow> Inl TypeError | JObj kvs \<Rightarrow> Inr (getp kvs ''date'') | _ \<Rightarrow> Inr None)"

text \<open>\<^verbatim>\<open>new Date(c.date).toDateString() === today\<close>; the text of an invalid date is
  no day.\<close>

definition isToday :: "env \<Rightarrow> int option \<Rightarrow> bool" where
  "isToday e d =
     (case d of None \<Rightarrow> False | Some t \<Rightarrow> toDateString e t = toDateString e (now e))"

fun countToday :: "env \<Rightarrow> jv list \<Rightarrow> exn + nat" where
  "countToday e [] = Inr 0"
| "countToday e (c # cs) =
     (case dateOfEntry c of
        Inl x \<Rightarrow> Inl x
      | Inr v \<Rightarrow>
          (case newDate v of
             Inl x \<Rightarrow> Inl x
           | Inr d \<Rightarrow>
               (case countToday e cs of
                  Inl x \<Rightarrow> Inl x
                | Inr n \<Rightarrow> Inr (if isToday e d then Suc n else n))))"

definition getTodayConsultationCount :: "env \<Rightarrow> state \<Rightarrow> jv \<Rightarrow> exn + nat" where
  "getTodayConsultationCount e st userId =
     (case findBy ''id'' (Some userId) (getUsers st) of
        None \<Rightarrow> Inr 0
      | Some user \<Rightarrow>
          (case getp user ''consultationHistory'' of
             None \<Rightarrow> Inr 0
           | Some v \<Rightarrow>
               if \<not> truthy v then Inr 0
               else (case v of JArr cs \<Rightarrow> countToday e cs | _ \<Rightarrow> Inl TypeError)))"

section \<open>Start-up and whole calls\<close>

text \<open>\<open>initializeUsers\<close> runs when the script loads and puts the demo account into an
  empty store.\<close>

definition demoUser :: "env \<Rightarrow> jstring \<Rightarrow> obj" where
  "demoUser e hashed =
     [(''id'', JStr (generateUserId e)),
      (''email'', JStr (js ''demo@saju2026.com'')),
      (''password'', JStr hashed),
      (''name'', JStr [54861, 44600, 46041]),
      (''phone'', JStr (js ''010-1234-5678'')),
      (''birthDate'', JStr (js ''1990-05-15'')),
      (''birthTime'', JStr ([51088, 49884, 40, 23376, 26178] @ js '', 23:30-01:29)'')),
      (''gender'', JStr (js ''male'')),
      (''calendarType'', JStr (js ''lunar'')),
      (''membershipType'', JStr (js ''free'')),
      (''premiumExpiry'', JNull),
      (''createdAt'', JDate (now e)),
      (''lastLogin'', JDate (now e)),
      (''sajuData'', JNull),
      (''purchaseHistory'', JArr []),
      (''consultationHistory'', JArr [])]"

definition initializeUsers :: "env \<Rightarrow> state \<Rightarrow> exn + state" where
  "initializeUsers e st =
     (if getUsers st = [] then
        (case hashPassword (js ''demo1234'') of
           Inl x \<Rightarrow> Inl x
         | Inr hashed \<Rightarrow> Inr (saveUser st (demoUser e hashed)))
      else Inr st)"

text \<open>
  The calls that change the store or the session, and the state each leaves. \<open>exec\<close>
  stops at an exception and reports it. Every exception of these functions is thrown
  before the first write, so the state is then as it was, but for the one of
  \<open>addPurchaseHistory\<close> that comes with its state.
\<close>

datatype call =
    InitializeUsers
  | Register userData
  | Login jstring jstring
  | Logout
  | UpdateUser jv obj
  | SaveSajuData jv jv
  | AddPurchaseHistory jv obj
  | AddConsultationHistory jv obj
  | ResetPassword jstring

definition stateAfter :: "exn + state \<times> 'a \<Rightarrow> exn + state" where
  "stateAfter r = (case r of Inl x \<Rightarrow> Inl x | Inr (st, res) \<Rightarrow> Inr st)"

fun exec :: "env \<Rightarrow> state \<Rightarrow> call \<Rightarrow> exn + state" where
  "exec e st InitializeUsers = initializeUsers e st"
| "exec e st (Register ud) = stateAfter (register e st ud)"
| "exec e st (Login em pw) = stateAfter (login e st em pw)"
| "exec e st Logout = Inr (fst (logout st))"
| "exec e st (UpdateUser userId updates) = stateAfter (updateUser st userId updates)"
| "exec e st (SaveSajuData userId sajuData) = Inr (fst (saveSajuData e st userId sajuData))"
| "exec e st (AddPurchaseHistory userId purchase) =
     (case addPurchaseHistory e st userId purchase of
        Inl (x, st') \<Rightarrow> Inl x
      | Inr (st', r) \<Rightarrow> Inr st')"
| "exec e st (AddConsultationHistory userId consultation) =
     stateAfter (addConsultationHistory e st userId consultation)"
| "exec e st (ResetPassword em) = stateAfter (resetPassword e st em)"

fun run :: "state \<Rightarrow> (env \<times> call) list \<Rightarrow> exn + state" where
  "run st [] = Inr st"
| "run st ((e, c) # cs) = (case exec e st c of Inl x \<Rightarrow> Inl x | Inr st' \<Rightarrow> run st' cs)"

section \<open>Predicates on states\<close>

text \<open>The current user carries no \<open>password\<close> field.\<close>

definition sessionRedacted :: "state \<Rightarrow> bool" where
  "sessionRedacted st =
     (case getCurrentUser st of None \<Rightarrow> True | Some u \<Rightarrow> getp u ''password'' = None)"

text \<open>The \<open>email\<close> of every stored account, in the order of the store.\<close>

definition emails :: "state \<Rightarrow> jv option list" where
  "emails st = map (\<lambda>u. getp u ''email'') (getUsers st)"

text \<open>
  The count of today's consultations as the specification words it: the entries of the
  history whose date, cut down to the calendar day of local time, is the calendar day of
  the clock. \<open>recordDay\<close> is that day for an entry that is a record with a timestamp.
\<close>

definition recordDay :: "env \<Rightarrow> jv \<Rightarrow> int option" where
  "recordDay e c =
     (case c of
        JObj kvs \<Rightarrow>
          (case getp kvs ''date'' of Some (JDate t) \<Rightarrow> Some (Day (LocalTime e t)) | _ \<Rightarrow> None)
      | _ \<Rightarrow> None)"

definition countTodaySpec :: "env \<Rightarrow> jv list \<Rightarrow> nat" where
  "countTodaySpec e cs =
     length (filter (\<lambda>c. recordDay e c = Some (Day (LocalTime e (now e)))) cs)"

section \<open>Example data\<close>

text \<open>A clock reading in November 2026 in Seoul, where local time is nine hours ahead
  of UTC all year, and the sign-up of the end-to-end scenario:
  \<^verbatim>\<open>alice@example.com\<close>, secret \<^verbatim>\<open>longenough\<close>.\<close>

definition env0 :: env where
  "env0 = \<lparr>now = 1793700000000, offsetUTC = (\<lambda>t. 32400000),
            offsetLocal = (\<lambda>t. 32400000), rnd = js ''k3x9q2m7p''\<rparr>"

definition emptyStore :: state where
  "emptyStore = \<lparr>users = [], session = None\<rparr>"

definition alice :: userData where
  "alice = \<lparr>email = js ''alice@example.com'', password = js ''longenough'',
             name = js ''Alice'', phone = [], birthDate = None, birthTime = None,
             gender = None, calendarType = None\<rparr>"

definition aliceId :: jv where
  "aliceId = JStr (generateUserId env0)"

definition aliceAccount :: obj where
  "aliceAccount = newUser env0 alice (b64groups (js ''longenough'' @ js ''saju2026_salt''))"

definition aliceStore :: state where
  "aliceStore = \<lparr>users = [aliceAccount], session = None\<rparr>"

text \<open>A secret in Hangul (the word for password): four code units above 255.\<close>

definition hangulSecret :: jstring where
  "hangulSecret = [48708, 48128, 48264, 54840, 50, 48, 50, 54]"

text \<open>A minute later; the state after Alice has signed up and logged in.\<close>

definition env1 :: env where
  "env1 = \<lparr>now = 1793700060000, offsetUTC = (\<lambda>t. 32400000),
            offsetLocal = (\<lambda>t. 32400000), rnd = js ''p0o9i8u7y''\<rparr>"

definition aliceSeen :: obj where
  "aliceSeen = setp aliceAccount ''lastLogin'' (JDate (now env1))"

definition aliceLoggedIn :: state where
  "aliceLoggedIn = \<lparr>users = [aliceSeen], session = Some (sanitizeUser aliceSeen)\<rparr>"

text \<open>A second sign-up, and the store that holds both accounts.\<close>

definition bob :: userData where
  "bob = \<lparr>email = js ''bob@example.com'', password = js ''bobssecret'',
           name = js ''Bob'', phone = js ''010-1234-5678'', birthDate = None,
           birthTime = None, gender = None, calendarType = None\<rparr>"

definition bobId :: jv where
  "bobId = JStr (generateUserId env1)"

definition bobAccount :: obj where
  "bobAccount = newUser env1 bob (b64groups (js ''bobssecret'' @ js ''saju2026_salt''))"

definition twoStore :: state where
  "twoStore = \<lparr>users = [aliceAccount, bobAccount], session = None\<rparr>"

text \<open>Alice as a premium member without an expiry, and with the expiry of a monthly
  purchase made at \<open>env0\<close> (3 December 2026, 19:00 in Seoul).\<close>

definition alicePremium :: obj where
  "alicePremium = setp aliceSeen ''membershipType'' (JStr (js ''premium''))"

definition lifetimeStore :: state where
  "lifetimeStore = \<lparr>users = [alicePremium], session = Some (sanitizeUser alicePremium)\<rparr>"

definition aliceMonthly :: obj where
  "aliceMonthly = setp alicePremium ''premiumExpiry'' (JDate 1796292000000)"

definition monthlyStore :: state where
  "monthlyStore = \<lparr>users = [aliceMonthly], session = Some (sanitizeUser aliceMonthly)\<rparr>"

text \<open>
  Five consultations of Alice. In Seoul the day of \<open>env0\<close> starts at 1793631600000: the
  first two are the day before (the second one millisecond before midnight), the other
  three are on the day.
\<close>

definition careerTalk :: obj where
  "careerTalk = [(''topic'', JStr (js ''career''))]"

definition at :: "int \<Rightarrow> env" where
  "at t = env0\<lparr>now := t\<rparr>"

definition visits :: "(env \<times> call) list" where
  "visits = map (\<lambda>t. (at t, AddConsultationHistory aliceId careerTalk))
     [1793600000000, 1793631599999, 1793631600000, 1793650000000, 1793699000000]"

definition visit :: "int \<Rightarrow> jv" where
  "visit t = JObj (newRecord (at t) ''consult_'' careerTalk)"

definition aliceVisited :: obj where
  "aliceVisited = setp aliceAccount ''consultationHistory''
     (JArr [visit 1793699000000, visit 1793650000000, visit 1793631600000,
            visit 1793631599999, visit 1793600000000])"

definition visitedStore :: state where
  "visitedStore = \<lparr>users = [aliceVisited], session = None\<rparr>"

text \<open>
  New York in 2026: daylight time, four hours behind UTC, from 8 March 07:00 UTC to
  1 November 06:00 UTC, and standard time, five hours behind, outside it. Read back from
  local time, the hour that the clocks skip in March takes the offset before the change,
  and so does the hour that they repeat in November. \<open>newYork t\<close> is a machine there
  whose clock reads \<open>t\<close>.
\<close>

definition nyOffsetUTC :: "int \<Rightarrow> int" where
  "nyOffsetUTC t =
     (if 1772953200000 \<le> t \<and> t < 1793512800000 then - 14400000 else - 18000000)"

definition nyOffsetLocal :: "int \<Rightarrow> int" where
  "nyOffsetLocal t =
     (if 1772938800000 \<le> t \<and> t < 1793498400000 then - 14400000 else - 18000000)"

definition newYork :: "int \<Rightarrow> env" where
  "newYork t = \<lparr>now = t, offsetUTC = nyOffsetUTC, offsetLocal = nyOffsetLocal,
                 rnd = js ''q1w2e3r4t''\<rparr>"

text \<open>
  Three consultations of Alice in New York around 1 November 2026, the day of 25 hours
  that runs from 04:00 UTC to 05:00 UTC of the next day: one half an hour before the day
  starts, one half an hour into it, and one half an hour before it ends. The clock of
  the count reads noon of that day, 17:00 UTC.
\<close>

definition nyVisits :: "(env \<times> call) list" where
  "nyVisits = map (\<lambda>t. (newYork t, AddConsultationHistory aliceId careerTalk))
     [1793503800000, 1793507400000, 1793593800000]"

definition nyVisit :: "int \<Rightarrow> jv" where
  "nyVisit t = JObj (newRecord (newYork t) ''consult_'' careerTalk)"

definition aliceInNewYork :: obj where
  "aliceInNewYork = setp aliceAccount ''consultationHistory''
     (JArr [nyVisit 1793593800000, nyVisit 1793507400000, nyVisit 1793503800000])"

definition nyStore :: state where
  "nyStore = \<lparr>users = [aliceInNewYork], session = None\<rparr>"

section \<open>Properties\<close>

subsection \<open>Objects and strings\<close>

lemma js_eq_Nil [simp]: "js s = [] \<longleftrightarrow> s = []"
  by (simp add: js_def)

lemma length_js [simp]: "length (js s) = length s"
  by (simp add: js_def)

lemma js_inject [simp]: "js a = js b \<longleftrightarrow> a = b"
  by (simp add: js_def inj_map_eq_map inj_of_char)

lemma getp_setp: "getp (setp ob k v) k' = (if k' = k then Some v else getp ob k')"
  by (simp add: getp_def setp_def update_conv')

lemma getp_assign:
  "getp (assign target source) k =
     (case getp source k of Some v \<Rightarrow> Some v | None \<Rightarrow> getp target k)"
  unfolding assign_def getp_def
  by (induction source) (auto simp: update_conv' split: option.splits)

lemma getp_sanitizeUser:
  "getp (sanitizeUser user) k = (if k = ''password'' then None else getp user k)"
  by (simp add: getp_def sanitizeUser_def delete_conv')

lemma getp_sanitized_password [simp]: "getp (sanitizeUser a) ''password'' = None"
  by (simp add: getp_sanitizeUser)

lemma getp_newUser [simp]:
  "getp (newUser e ud h) ''id'' = Some (JStr (generateUserId e))"
  "getp (newUser e ud h) ''email'' = Some (JStr (email ud))"
  by (simp_all add: newUser_def getp_def)

lemma getp_newRecord:
  "getp (newRecord e prefix input) k =
     (if k = ''date'' then Some (JDate (now e))
      else if k = ''id'' then
        (case getp input ''id'' of Some v \<Rightarrow> Some v
         | None \<Rightarrow> Some (JStr (js prefix @ showInt (now e))))
      else getp input k)"
  by (auto simp: newRecord_def getp_setp getp_assign getp_def [of "[_]"] split: option.splits)

lemma seq_Some: "seq a (Some v) \<longleftrightarrow> a = Some v \<and> primitive (Some v)"
  by (auto simp: seq_def)

lemma seq_iff: "primitive b \<Longrightarrow> seq a b \<longleftrightarrow> a = b"
  by (auto simp: seq_def)

subsection \<open>The codec\<close>

lemma hashPassword_latin1:
  "list_all (\<lambda>c. c \<le> 255) s \<Longrightarrow> hashPassword s = Inr (b64groups (s @ js ''saju2026_salt''))"
  by (simp add: hashPassword_def btoa_def js_def)

lemma hashPassword_throws:
  "\<not> list_all (\<lambda>c. c \<le> 255) s \<Longrightarrow> hashPassword s = Inl InvalidCharacterError"
  by (simp add: hashPassword_def btoa_def)

lemma verifyPassword_latin1:
  "list_all (\<lambda>c. c \<le> 255) s \<Longrightarrow>
     verifyPassword s v = Inr (v = Some (JStr (b64groups (s @ js ''saju2026_salt''))))"
  by (auto simp: verifyPassword_def hashPassword_latin1 seq_def)

subsection \<open>The repository\<close>

lemma findIndex_Some:
  "findIndex P xs = Some i \<Longrightarrow> i < length xs \<and> P (xs ! i) \<and> find P xs = Some (xs ! i)"
  by (induction xs arbitrary: i) (auto split: if_splits)

lemma find_findIndex: "find P xs = Some x \<Longrightarrow> \<exists>i. findIndex P xs = Some i \<and> xs ! i = x"
  by (induction xs) (auto split: if_splits)

lemma findIndex_None: "findIndex P xs = None \<longleftrightarrow> find P xs = None"
  by (induction xs) auto

lemma findIndex_None_all: "findIndex P xs = None \<Longrightarrow> \<forall>x \<in> set xs. \<not> P x"
  by (induction xs) (auto split: if_splits)

lemma findBy_Some:
  "findBy k v us = Some u \<Longrightarrow>
     seq (getp u k) v \<and> (\<exists>i. findIndex (\<lambda>a. seq (getp a k) v) us = Some i \<and> us ! i = u)"
  unfolding findBy_def using find_findIndex [of "\<lambda>a. seq (getp a k) v" us u]
  by (auto dest: find_Some_iff [THEN iffD1])

lemma findBy_mem: "findBy k v us = Some u \<Longrightarrow> u \<in> set us"
  by (auto simp: findBy_def find_Some_iff)

lemma findBy_None: "findBy k v us = None \<Longrightarrow> \<forall>a \<in> set us. \<not> seq (getp a k) v"
  by (auto simp: findBy_def find_None_iff)


lemma distinct_map_nth:
  "distinct (map f xs) \<Longrightarrow> i < length xs \<Longrightarrow> k < length xs \<Longrightarrow> f (xs ! k) = f (xs ! i)
     \<Longrightarrow> k = i"
  using nth_eq_iff_index_eq [of "map f xs" k i] by simp

lemma session_saveUser [simp]: "session (saveUser st u) = session st"
  by (simp add: saveUser_def split: option.splits)

lemma saveUser_mem: "u \<in> set (getUsers (saveUser st u))"
  by (auto simp: saveUser_def getUsers_def set_update_memI dest: findIndex_Some
        split: option.splits)


lemma session_setCurrentUser [simp]: "session (setCurrentUser st a) = Some (sanitizeUser a)"
  by (simp add: setCurrentUser_def)

lemma users_setCurrentUser [simp]: "users (setCurrentUser st a) = users st"
  by (simp add: setCurrentUser_def)

lemma users_republish [simp]: "users (republish st userId u) = users st"
  by (simp add: republish_def setCurrentUser_def split: option.splits)

subsection \<open>The outcomes of the calls\<close>

lemma register_failure: "register e st ud = Inr (st', Failure m) \<Longrightarrow> st' = st"
  by (simp add: register_def split: if_splits sum.splits)

lemma login_failure: "login e st em pw = Inr (st', Failure m) \<Longrightarrow> st' = st"
  by (simp add: login_def Let_def split: if_splits option.splits sum.splits)

lemma updateUser_failure: "updateUser st userId updates = Inr (st', Failure m) \<Longrightarrow> st' = st"
  by (simp add: updateUser_def Let_def split: if_splits option.splits sum.splits)

lemma resetPassword_failure: "resetPassword e st em = Inr (st', Failure m) \<Longrightarrow> st' = st"
  by (simp add: resetPassword_def Let_def split: option.splits sum.splits)

lemma register_Success:
  "register e st ud = Inr (st', Success m u) \<Longrightarrow>
     \<exists>h. st' = saveUser st (newUser e ud h) \<and> u = sanitizeUser (newUser e ud h)"
  by (auto simp: register_def split: if_splits sum.splits)

lemma login_Success:
  "login e st em pw = Inr (st', Success m u) \<Longrightarrow>
     \<exists>user. findBy ''email'' (Some (JStr em)) (getUsers st) = Some user
       \<and> st' = setCurrentUser (saveUser st (setp user ''lastLogin'' (JDate (now e))))
                  (setp user ''lastLogin'' (JDate (now e)))
       \<and> u = sanitizeUser (setp user ''lastLogin'' (JDate (now e)))"
  by (simp add: login_def Let_def split: if_splits option.splits sum.splits)

lemma getp_hashUpdates:
  "hashUpdates updates = Inr updates' \<Longrightarrow> k \<noteq> ''password'' \<Longrightarrow> getp updates' k = getp updates k"
  by (auto simp: hashUpdates_def getp_setp split: option.splits if_splits jv.splits sum.splits)

lemma updateUser_Success:
  assumes "updateUser st userId updates = Inr (st', Success m u)"
  shows "\<exists>user updates'. findBy ''id'' (Some userId) (getUsers st) = Some user
           \<and> hashUpdates updates = Inr updates'
           \<and> st' = republish (saveUser st (assign user updates')) userId (assign user updates')
           \<and> u = sanitizeUser (assign user updates')"
  using assms
  by (simp add: updateUser_def Let_def split: option.splits sum.splits if_splits)

lemma updateUser_Success_check:
  assumes "updateUser st userId updates = Inr (st', Success m u)"
  shows "\<exists>user updates'. findBy ''id'' (Some userId) (getUsers st) = Some user
           \<and> hashUpdates updates = Inr updates'
           \<and> \<not> (truthyo (getp updates' ''email'')
                 \<and> \<not> seq (getp updates' ''email'') (getp user ''email'')
                 \<and> list_ex (\<lambda>u. seq (getp u ''email'') (getp updates' ''email'')
                                 \<and> \<not> seq (getp u ''id'') (Some userId)) (getUsers st))
           \<and> st' = republish (saveUser st (assign user updates')) userId (assign user updates')"
  using assms
  by (simp add: updateUser_def Let_def split: option.splits sum.splits if_splits)

lemma updateUser_no_email:
  assumes "findBy ''id'' (Some userId) (getUsers st) = Some user"
    and "getp updates ''password'' = None"
    and "\<not> truthyo (getp updates ''email'')"
  shows "updateUser st userId updates
     = Inr (republish (saveUser st (assign user updates)) userId (assign user updates),
            Success MsgUpdated (sanitizeUser (assign user updates)))"
  using assms by (simp add: updateUser_def hashUpdates_def Let_def)

lemma login_latin1:
  assumes "list_all (\<lambda>c. c \<le> 255) pw"
  shows "login e st em pw =
     (if em = [] \<or> pw = [] then Inr (st, Failure MsgEnterCredentials)
      else
        (case findBy ''email'' (Some (JStr em)) (getUsers st) of
           None \<Rightarrow> Inr (st, Failure MsgUnknownEmail)
         | Some user \<Rightarrow>
             if getp user ''password'' \<noteq> Some (JStr (b64groups (pw @ js ''saju2026_salt'')))
             then Inr (st, Failure MsgWrongPassword)
             else Inr (setCurrentUser (saveUser st (setp user ''lastLogin'' (JDate (now e))))
                         (setp user ''lastLogin'' (JDate (now e))),
                       Success MsgLoggedIn (sanitizeUser (setp user ''lastLogin'' (JDate (now e)))))))"
  by (simp add: login_def verifyPassword_latin1 [OF assms] Let_def split: option.splits)

lemma stateAfter_Inr: "stateAfter r = Inr st' \<longleftrightarrow> (\<exists>res. r = Inr (st', res))"
  by (auto simp: stateAfter_def split: sum.splits)

subsection \<open>The example accounts\<close>

lemma alice_valid_email: "isValidEmail (js ''alice@example.com'')"
  by (simp add: isValidEmail_def test_def emailRegex_def js_def notSpaceAt_def isSpace_def lit_def)

lemma alice_hash:
  "hashPassword (js ''longenough'') = Inr (b64groups (js ''longenough'' @ js ''saju2026_salt''))"
  by (rule hashPassword_latin1) (simp add: js_def)

lemma register_alice:
  "register env0 emptyStore alice
     = Inr (aliceStore, Success MsgRegistered (sanitizeUser aliceAccount))"
  by (simp add: register_def alice_def alice_valid_email alice_hash isValidPassword_def
        emptyStore_def getUsers_def findBy_def saveUser_def aliceStore_def aliceAccount_def)

lemma aliceAccount_id: "getp aliceAccount ''id'' = Some aliceId"
  by (simp add: aliceAccount_def newUser_def getp_def aliceId_def)

lemma aliceAccount_email: "getp aliceAccount ''email'' = Some (JStr (js ''alice@example.com''))"
  by (simp add: aliceAccount_def newUser_def getp_def alice_def)

lemma aliceAccount_password:
  "getp aliceAccount ''password''
     = Some (JStr (b64groups (js ''longenough'' @ js ''saju2026_salt'')))"
  by (simp add: aliceAccount_def newUser_def getp_def)

lemma find_alice_by_email:
  "findBy ''email'' (Some (JStr (js ''alice@example.com''))) (getUsers aliceStore)
     = Some aliceAccount"
  by (simp add: findBy_def getUsers_def aliceStore_def aliceAccount_email seq_def)

lemma find_alice_by_id: "findBy ''id'' (Some aliceId) (getUsers aliceStore) = Some aliceAccount"
  by (simp add: findBy_def getUsers_def aliceStore_def aliceAccount_id seq_def aliceId_def)

lemma session_aliceStore: "session aliceStore = None"
  by (simp add: aliceStore_def)

lemma save_alice_field:
  "k \<noteq> ''id'' \<Longrightarrow> saveUser aliceStore (setp aliceAccount k v)
     = \<lparr>users = [setp aliceAccount k v], session = None\<rparr>"
  by (simp add: saveUser_def getUsers_def aliceStore_def getp_setp aliceAccount_id seq_def
        aliceId_def)

lemma save_aliceSeen: "saveUser aliceStore aliceSeen = \<lparr>users = [aliceSeen], session = None\<rparr>"
  by (simp add: aliceSeen_def save_alice_field)

lemma login_alice:
  "login env1 aliceStore (js ''alice@example.com'') (js ''longenough'')
     = Inr (aliceLoggedIn, Success MsgLoggedIn (sanitizeUser aliceSeen))"
proof -
  have "verifyPassword (js ''longenough'') (getp aliceAccount ''password'') = Inr True"
    by (simp add: verifyPassword_latin1 js_def aliceAccount_password)
  then show ?thesis
    by (simp add: login_def find_alice_by_email Let_def aliceSeen_def [symmetric]
          save_aliceSeen setCurrentUser_def aliceLoggedIn_def)
qed

lemma update_alice_name:
  "updateUser aliceStore aliceId [(''name'', JStr (js ''Alice Kim''))]
     = Inr (\<lparr>users = [setp aliceAccount ''name'' (JStr (js ''Alice Kim''))], session = None\<rparr>,
            Success MsgUpdated (sanitizeUser (setp aliceAccount ''name'' (JStr (js ''Alice Kim'')))))"
proof -
  have h: "hashUpdates [(''name'', JStr (js ''Alice Kim''))]
      = Inr [(''name'', JStr (js ''Alice Kim''))]"
    by (simp add: hashUpdates_def getp_def)
  have a: "assign aliceAccount [(''name'', JStr (js ''Alice Kim''))]
      = setp aliceAccount ''name'' (JStr (js ''Alice Kim''))"
    by (simp add: assign_def setp_def)
  show ?thesis
    by (simp add: updateUser_def find_alice_by_id h a save_alice_field truthyo_def
          getp_def [of "[_]"] republish_def getCurrentUser_def Let_def session_aliceStore)
qed

lemma update_alice_id:
  "updateUser aliceStore aliceId [(''id'', JStr (js ''intruder''))]
     = Inr (\<lparr>users = [aliceAccount, setp aliceAccount ''id'' (JStr (js ''intruder''))],
             session = None\<rparr>,
            Success MsgUpdated (sanitizeUser (setp aliceAccount ''id'' (JStr (js ''intruder'')))))"
proof -
  have other: "generateUserId env0 \<noteq> js ''intruder''"
    by (simp add: generateUserId_def js_def)
  have a: "assign aliceAccount [(''id'', JStr (js ''intruder''))]
      = setp aliceAccount ''id'' (JStr (js ''intruder''))"
    by (simp add: assign_def setp_def)
  have s: "saveUser aliceStore (setp aliceAccount ''id'' (JStr (js ''intruder'')))
      = \<lparr>users = [aliceAccount, setp aliceAccount ''id'' (JStr (js ''intruder''))],
         session = None\<rparr>"
    using other
    by (simp add: saveUser_def getUsers_def aliceStore_def getp_setp aliceAccount_id seq_def
          aliceId_def)
  show ?thesis
    by (simp add: updateUser_no_email [OF find_alice_by_id] getp_def [of "[_]"] truthyo_def a s
          republish_def getCurrentUser_def)
qed

lemma ids_differ: "generateUserId env1 \<noteq> generateUserId env0"
  by (simp add: generateUserId_def env0_def env1_def showInt_def digits.simps js_def)

lemma bobAccount_id: "getp bobAccount ''id'' = Some bobId"
  by (simp add: bobAccount_def bobId_def)

lemma bobAccount_email: "getp bobAccount ''email'' = Some (JStr (js ''bob@example.com''))"
  by (simp add: bobAccount_def bob_def)

lemma bob_fields:
  "email bob = js ''bob@example.com''" "password bob = js ''bobssecret''"
  "name bob = js ''Bob''" "phone bob = js ''010-1234-5678''"
  by (simp_all add: bob_def)

lemma register_bob:
  "register env1 aliceStore bob = Inr (twoStore, Success MsgRegistered (sanitizeUser bobAccount))"
proof -
  have e: "isValidEmail (js ''bob@example.com'')"
    by (simp add: isValidEmail_def test_def emailRegex_def js_def notSpaceAt_def isSpace_def
          lit_def)
  have p: "isValidPhone (js ''010-1234-5678'')"
    by (simp add: isValidPhone_def test_def phoneRegex_def js_def isDigit_def lit_def
          eval_nat_numeral)
  have h: "hashPassword (js ''bobssecret'')
      = Inr (b64groups (js ''bobssecret'' @ js ''saju2026_salt''))"
    by (rule hashPassword_latin1) (simp add: js_def)
  have f: "findBy ''email'' (Some (JStr (js ''bob@example.com''))) (getUsers aliceStore) = None"
    by (simp add: findBy_def getUsers_def aliceStore_def aliceAccount_email seq_def)
  have s: "saveUser aliceStore bobAccount = twoStore"
    using ids_differ
    by (auto simp: saveUser_def getUsers_def aliceStore_def twoStore_def aliceAccount_id
          bobAccount_id seq_def aliceId_def bobId_def)
  show ?thesis
    by (simp add: register_def bob_fields e p h f isValidPassword_def
          bobAccount_def [symmetric] s)
qed

lemma find_in_twoStore:
  "findBy ''id'' (Some aliceId) (getUsers twoStore) = Some aliceAccount"
  "findBy ''id'' (Some bobId) (getUsers twoStore) = Some bobAccount"
  using ids_differ
  by (auto simp: findBy_def getUsers_def twoStore_def aliceAccount_id bobAccount_id seq_def
        aliceId_def bobId_def)

subsection \<open>The codec and the checks of the service\<close>

text \<open>
  C1 (the code departs from the claim). The claim: for every non-empty string \<open>s\<close>,
  \<open>verifyPassword s (hashPassword s)\<close> is true, \<open>hashPassword\<close> is deterministic, and
  \<open>verifyPassword s v\<close> holds exactly when \<open>hashPassword s\<close> equals \<open>v\<close>. The code
  hashes with \<^verbatim>\<open>btoa\<close>, which throws on a code unit above 255: for a secret written in
  Hangul neither function returns, and a sign-up with that secret ends in the exception
  instead of a result.
\<close>

theorem hashPassword_hangul_throws:
  "hashPassword hangulSecret = Inl InvalidCharacterError
   \<and> verifyPassword hangulSecret v = Inl InvalidCharacterError
   \<and> register env0 emptyStore (alice\<lparr>password := hangulSecret\<rparr>) = Inl InvalidCharacterError"
  by (simp add: verifyPassword_def hashPassword_def btoa_def hangulSecret_def register_def
        alice_def alice_valid_email isValidPassword_def emptyStore_def getUsers_def findBy_def)

text \<open>
  C5 (the code departs from the claim). The claim: \<open>login\<close> fails with the
  wrong-password result whenever the secret does not match the stored verifier, and
  fails in no other way than its three failure results. For the account of the example
  and a secret written in Hangul the call returns no result at all: \<open>verifyPassword\<close>
  hashes the secret first, and \<^verbatim>\<open>btoa\<close> throws. For secrets of code units up to 255
  the function is as the claim says (\<open>login_latin1\<close>).
\<close>

theorem login_hangul_throws:
  "login env0 aliceStore (js ''alice@example.com'') hangulSecret = Inl InvalidCharacterError"
  by (simp add: login_def find_alice_by_email verifyPassword_def hashPassword_def btoa_def
        hangulSecret_def)

text \<open>
  C6. \<open>register\<close> checks in this order and reports the first check that fails: the
  required fields (email, password, name), the shape of the email, the length of the
  password (at least 8), the shape of the phone number when one is given, and that no
  stored account has the email. Each line below assumes that the earlier checks pass and
  says nothing about the later ones, so an input that violates several conditions gets the
  message of the earliest. When every check passes the result is no failure.
\<close>

theorem register_first_violation:
  "(email ud = [] \<or> password ud = [] \<or> name ud = []
      \<longrightarrow> register e st ud = Inr (st, Failure MsgRequired))
   \<and> (email ud \<noteq> [] \<and> password ud \<noteq> [] \<and> name ud \<noteq> [] \<and> \<not> isValidEmail (email ud)
      \<longrightarrow> register e st ud = Inr (st, Failure MsgBadEmail))
   \<and> (email ud \<noteq> [] \<and> password ud \<noteq> [] \<and> name ud \<noteq> [] \<and> isValidEmail (email ud)
       \<and> length (password ud) < 8
      \<longrightarrow> register e st ud = Inr (st, Failure MsgShortPassword))
   \<and> (email ud \<noteq> [] \<and> password ud \<noteq> [] \<and> name ud \<noteq> [] \<and> isValidEmail (email ud)
       \<and> 8 \<le> length (password ud) \<and> phone ud \<noteq> [] \<and> \<not> isValidPhone (phone ud)
      \<longrightarrow> register e st ud = Inr (st, Failure MsgBadPhone))
   \<and> (email ud \<noteq> [] \<and> password ud \<noteq> [] \<and> name ud \<noteq> [] \<and> isValidEmail (email ud)
       \<and> 8 \<le> length (password ud) \<and> (phone ud = [] \<or> isValidPhone (phone ud))
       \<and> findBy ''email'' (Some (JStr (email ud))) (getUsers st) \<noteq> None
      \<longrightarrow> register e st ud = Inr (st, Failure MsgEmailTaken))
   \<and> (email ud \<noteq> [] \<and> password ud \<noteq> [] \<and> name ud \<noteq> [] \<and> isValidEmail (email ud)
       \<and> 8 \<le> length (password ud) \<and> (phone ud = [] \<or> isValidPhone (phone ud))
       \<and> findBy ''email'' (Some (JStr (email ud))) (getUsers st) = None
      \<longrightarrow> register e st ud \<noteq> Inr (st', Failure m))"
  by (auto simp: register_def isValidPassword_def split: sum.splits)

theorem register_first_violation_witness:
  "register env0 emptyStore
      (alice\<lparr>name := [], email := js ''nope'', password := js ''short'', phone := js ''123''\<rparr>)
     = Inr (emptyStore, Failure MsgRequired)
   \<and> register env0 emptyStore
      (alice\<lparr>email := js ''nope'', password := js ''short'', phone := js ''123''\<rparr>)
     = Inr (emptyStore, Failure MsgBadEmail)
   \<and> register env0 emptyStore (alice\<lparr>password := js ''short'', phone := js ''123''\<rparr>)
     = Inr (emptyStore, Failure MsgShortPassword)
   \<and> register env0 aliceStore (alice\<lparr>phone := js ''123''\<rparr>)
     = Inr (aliceStore, Failure MsgBadPhone)
   \<and> register env0 aliceStore alice = Inr (aliceStore, Failure MsgEmailTaken)
   \<and> register env0 emptyStore alice \<noteq> Inr (emptyStore, Failure MsgEmailTaken)"
proof (intro conjI)
  have bad_email: "\<not> isValidEmail (js ''nope'')"
    by (simp add: isValidEmail_def test_def emailRegex_def js_def notSpaceAt_def isSpace_def
          lit_def)
  have bad_phone: "\<not> isValidPhone (js ''123'')"
    by (simp add: isValidPhone_def test_def phoneRegex_def js_def isDigit_def lit_def)
  show "register env0 emptyStore
      (alice\<lparr>name := [], email := js ''nope'', password := js ''short'', phone := js ''123''\<rparr>)
     = Inr (emptyStore, Failure MsgRequired)"
    by (rule register_first_violation [THEN conjunct1, rule_format]) simp
  show "register env0 emptyStore
      (alice\<lparr>email := js ''nope'', password := js ''short'', phone := js ''123''\<rparr>)
     = Inr (emptyStore, Failure MsgBadEmail)"
    by (rule register_first_violation [THEN conjunct2, THEN conjunct1, rule_format])
      (simp add: alice_def bad_email)
  show "register env0 emptyStore (alice\<lparr>password := js ''short'', phone := js ''123''\<rparr>)
     = Inr (emptyStore, Failure MsgShortPassword)"
    by (rule register_first_violation
          [THEN conjunct2, THEN conjunct2, THEN conjunct1, rule_format])
      (simp add: alice_def alice_valid_email)
  show "register env0 aliceStore (alice\<lparr>phone := js ''123''\<rparr>)
     = Inr (aliceStore, Failure MsgBadPhone)"
    by (rule register_first_violation
          [THEN conjunct2, THEN conjunct2, THEN conjunct2, THEN conjunct1, rule_format])
      (simp add: alice_def alice_valid_email bad_phone)
  show "register env0 aliceStore alice = Inr (aliceStore, Failure MsgEmailTaken)"
    by (rule register_first_violation
          [THEN conjunct2, THEN conjunct2, THEN conjunct2, THEN conjunct2, THEN conjunct1,
           rule_format])
      (simp add: alice_def alice_valid_email find_alice_by_email)
  show "register env0 emptyStore alice \<noteq> Inr (emptyStore, Failure MsgEmailTaken)"
    by (rule register_first_violation
          [THEN conjunct2, THEN conjunct2, THEN conjunct2, THEN conjunct2, THEN conjunct2,
           rule_format])
      (simp add: alice_def alice_valid_email findBy_def getUsers_def emptyStore_def)
qed

text \<open>
  C10. A call of \<open>register\<close>, \<open>login\<close>, \<open>updateUser\<close> or \<open>resetPassword\<close> that returns
  a failure result leaves the stored accounts and the current user as they were.
\<close>

theorem failure_leaves_state:
  "(register e st ud = Inr (st', Failure m) \<longrightarrow> st' = st)
   \<and> (login e st em pw = Inr (st', Failure m) \<longrightarrow> st' = st)
   \<and> (updateUser st userId updates = Inr (st', Failure m) \<longrightarrow> st' = st)
   \<and> (resetPassword e st em = Inr (st', Failure m) \<longrightarrow> st' = st)"
  by (intro conjI impI)
    (erule register_failure login_failure updateUser_failure resetPassword_failure)+

theorem failure_leaves_state_witness:
  "register env0 aliceStore alice = Inr (aliceStore, Failure MsgEmailTaken)
   \<and> login env0 aliceStore (js ''alice@example.com'') (js ''wrong'')
        = Inr (aliceStore, Failure MsgWrongPassword)
   \<and> updateUser aliceStore (JStr (js ''nobody'')) [] = Inr (aliceStore, Failure MsgUserNotFound)
   \<and> resetPassword env0 aliceStore (js ''bob@example.com'')
        = Inr (aliceStore, Failure MsgUnknownEmail)"
proof -
  have stored: "getp aliceAccount ''password''
      = Some (JStr (b64groups (js ''longenough'' @ js ''saju2026_salt'')))"
    by (simp add: aliceAccount_def newUser_def getp_def)
  have differ: "b64groups (js ''wrong'' @ js ''saju2026_salt'')
      \<noteq> b64groups (js ''longenough'' @ js ''saju2026_salt'')"
    by (simp add: js_def b64char_def)
  have wrong: "verifyPassword (js ''wrong'') (getp aliceAccount ''password'') = Inr False"
    using differ by (simp add: verifyPassword_latin1 js_def stored)
  have r: "register env0 aliceStore alice = Inr (aliceStore, Failure MsgEmailTaken)"
    by (simp add: register_def alice_def alice_valid_email isValidPassword_def
          find_alice_by_email)
  have l: "login env0 aliceStore (js ''alice@example.com'') (js ''wrong'')
        = Inr (aliceStore, Failure MsgWrongPassword)"
    by (simp add: login_def find_alice_by_email wrong)
  have nobody: "generateUserId env0 \<noteq> js ''nobody''"
    by (simp add: generateUserId_def js_def)
  have u: "updateUser aliceStore (JStr (js ''nobody'')) []
        = Inr (aliceStore, Failure MsgUserNotFound)"
    using nobody
    by (simp add: updateUser_def findBy_def getUsers_def aliceStore_def aliceAccount_id
          aliceId_def seq_def)
  have p: "resetPassword env0 aliceStore (js ''bob@example.com'')
        = Inr (aliceStore, Failure MsgUnknownEmail)"
    by (simp add: resetPassword_def findBy_def getUsers_def aliceStore_def aliceAccount_email
          seq_def)
  from failure_leaves_state [of env0 aliceStore alice aliceStore MsgEmailTaken
      "js ''alice@example.com''" "js ''wrong''" "JStr (js ''nobody'')" "[]"] r l u p
  show ?thesis by simp
qed

subsection \<open>The history ledger\<close>

text \<open>
  C3 (the code departs from the claim). The claim: the record that \<open>addPurchaseHistory\<close>
  and \<open>addConsultationHistory\<close> put at position 0 has an id and a date assigned by the
  ledger, never taken from the caller, and keeps the caller's other fields. The object
  literal writes \<open>id\<close> before the spread of the caller's input and \<open>date\<close> after it:
  the date is the ledger's, but an \<open>id\<close> field of the input replaces the ledger's id.
\<close>

theorem history_record_takes_caller_id:
  "addPurchaseHistory env0 aliceStore aliceId
       [(''id'', JStr (js ''mine'')), (''type'', JStr (js ''gift''))]
     = Inr (\<lparr>users = [setp aliceAccount ''purchaseHistory''
                 (JArr [JObj [(''id'', JStr (js ''mine'')), (''type'', JStr (js ''gift'')),
                              (''date'', JDate (now env0))]])],
             session = None\<rparr>,
            Success NoMessage
              [(''id'', JStr (js ''mine'')), (''type'', JStr (js ''gift'')),
               (''date'', JDate (now env0))])
   \<and> addConsultationHistory env0 aliceStore aliceId
       [(''id'', JStr (js ''mine'')), (''topic'', JStr (js ''career''))]
     = Inr (\<lparr>users = [setp aliceAccount ''consultationHistory''
                 (JArr [JObj [(''id'', JStr (js ''mine'')), (''topic'', JStr (js ''career'')),
                              (''date'', JDate (now env0))]])],
             session = None\<rparr>,
            Success NoMessage
              [(''id'', JStr (js ''mine'')), (''topic'', JStr (js ''career'')),
               (''date'', JDate (now env0))])"
proof -
  have hp: "historyOf aliceAccount ''purchaseHistory'' = Inr []"
    by (simp add: historyOf_def aliceAccount_def newUser_def getp_def)
  have hc: "historyOf aliceAccount ''consultationHistory'' = Inr []"
    by (simp add: historyOf_def aliceAccount_def newUser_def getp_def)
  have rp: "newRecord env0 ''purchase_'' [(''id'', JStr (js ''mine'')), (''type'', JStr (js ''gift''))]
      = [(''id'', JStr (js ''mine'')), (''type'', JStr (js ''gift'')), (''date'', JDate (now env0))]"
    by (simp add: newRecord_def assign_def setp_def)
  have rc: "newRecord env0 ''consult_'' [(''id'', JStr (js ''mine'')), (''topic'', JStr (js ''career''))]
      = [(''id'', JStr (js ''mine'')), (''topic'', JStr (js ''career'')), (''date'', JDate (now env0))]"
    by (simp add: newRecord_def assign_def setp_def)
  have s: "\<And>k v. k \<noteq> ''id'' \<Longrightarrow> saveUser aliceStore (setp aliceAccount k v)
      = \<lparr>users = [setp aliceAccount k v], session = None\<rparr>"
    by (simp add: saveUser_def getUsers_def aliceStore_def getp_setp aliceAccount_id seq_def
          aliceId_def)
  show ?thesis
    by (simp add: addPurchaseHistory_def addConsultationHistory_def find_alice_by_id hp hc rp rc
          s Let_def seq_def getp_def [of "_ # _"])
qed

subsection \<open>The id under updates\<close>




subsection \<open>The redacted view\<close>

lemma sessionRedacted_saveUser [simp]: "sessionRedacted (saveUser st a) = sessionRedacted st"
  by (simp add: sessionRedacted_def getCurrentUser_def)

lemma sessionRedacted_setCurrentUser [simp]: "sessionRedacted (setCurrentUser st a)"
  by (simp add: sessionRedacted_def getCurrentUser_def)

lemma sessionRedacted_republish:
  "sessionRedacted st \<Longrightarrow> sessionRedacted (republish st userId a)"
  by (simp add: republish_def split: option.splits)

lemma updateUser_redacted:
  "sessionRedacted st \<Longrightarrow> updateUser st userId updates = Inr (st', r) \<Longrightarrow> sessionRedacted st'"
  by (auto simp: updateUser_def Let_def sessionRedacted_republish
        split: option.splits sum.splits if_splits)

lemma addPurchaseHistory_redacted:
  "sessionRedacted st \<Longrightarrow> addPurchaseHistory e st userId purchase = Inr (st', r)
     \<Longrightarrow> sessionRedacted st'"
  unfolding addPurchaseHistory_def Let_def
  by (auto split: option.splits sum.splits if_splits dest!: updateUser_redacted [rotated])

lemma addPurchaseHistory_thrown_redacted:
  "sessionRedacted st \<Longrightarrow> addPurchaseHistory e st userId purchase = Inl (x, st')
     \<Longrightarrow> sessionRedacted st'"
  unfolding addPurchaseHistory_def Let_def
  by (auto split: option.splits sum.splits if_splits)

lemma exec_redacted:
  "sessionRedacted st \<Longrightarrow> exec e st c = Inr st' \<Longrightarrow> sessionRedacted st'"
proof (cases c)
  case InitializeUsers
  then show "sessionRedacted st \<Longrightarrow> exec e st c = Inr st' \<Longrightarrow> sessionRedacted st'"
    by (auto simp: initializeUsers_def split: if_splits sum.splits)
next
  case (Register ud)
  then show "sessionRedacted st \<Longrightarrow> exec e st c = Inr st' \<Longrightarrow> sessionRedacted st'"
    by (auto simp: stateAfter_Inr register_def split: if_splits sum.splits)
next
  case (Login em pw)
  then show "sessionRedacted st \<Longrightarrow> exec e st c = Inr st' \<Longrightarrow> sessionRedacted st'"
    by (auto simp: stateAfter_Inr login_def Let_def split: if_splits sum.splits option.splits)
next
  case Logout
  then show "sessionRedacted st \<Longrightarrow> exec e st c = Inr st' \<Longrightarrow> sessionRedacted st'"
    by (auto simp: logout_def sessionRedacted_def getCurrentUser_def)
next
  case (UpdateUser userId updates)
  then show "sessionRedacted st \<Longrightarrow> exec e st c = Inr st' \<Longrightarrow> sessionRedacted st'"
    by (auto simp: stateAfter_Inr dest: updateUser_redacted)
next
  case (SaveSajuData userId sajuData)
  then show "sessionRedacted st \<Longrightarrow> exec e st c = Inr st' \<Longrightarrow> sessionRedacted st'"
    by (auto simp: saveSajuData_def Let_def sessionRedacted_republish split: option.splits)
next
  case (AddPurchaseHistory userId purchase)
  then show "sessionRedacted st \<Longrightarrow> exec e st c = Inr st' \<Longrightarrow> sessionRedacted st'"
    by (auto split: sum.splits dest: addPurchaseHistory_redacted)
next
  case (AddConsultationHistory userId consultation)
  then show "sessionRedacted st \<Longrightarrow> exec e st c = Inr st' \<Longrightarrow> sessionRedacted st'"
    by (auto simp: stateAfter_Inr addConsultationHistory_def Let_def
          split: option.splits sum.splits)
next
  case (ResetPassword em)
  then show "sessionRedacted st \<Longrightarrow> exec e st c = Inr st' \<Longrightarrow> sessionRedacted st'"
    by (auto simp: stateAfter_Inr resetPassword_def Let_def split: option.splits sum.splits)
qed

lemma run_redacted: "sessionRedacted st \<Longrightarrow> run st cs = Inr st' \<Longrightarrow> sessionRedacted st'"
proof (induction cs arbitrary: st)
  case Nil
  then show ?case by simp
next
  case (Cons ec cs)
  obtain e c where ec: "ec = (e, c)" by (cases ec)
  from Cons.prems(2) obtain st1 where s1: "exec e st c = Inr st1" and r: "run st1 cs = Inr st'"
    by (auto simp: ec split: sum.splits)
  from exec_redacted [OF Cons.prems(1) s1] have "sessionRedacted st1" .
  from Cons.IH [OF this r] show ?case .
qed

text \<open>
  C4. No account that \<open>register\<close>, \<open>login\<close> or \<open>updateUser\<close> returns has a
  \<open>password\<close> field: each is \<open>sanitizeUser\<close> of an account that is then in the
  store. \<open>setCurrentUser\<close> stores the sanitized account, which is what
  \<open>getCurrentUser\<close> reads; and from a state whose current user has no \<open>password\<close>
  field, no sequence of calls reaches one whose current user has it.
\<close>

theorem verifier_never_returned:
  "(register e st ud = Inr (st', Success m u)
      \<longrightarrow> getp u ''password'' = None \<and> (\<exists>a \<in> set (getUsers st'). u = sanitizeUser a))
   \<and> (login e st em pw = Inr (st', Success m u)
      \<longrightarrow> getp u ''password'' = None \<and> (\<exists>a \<in> set (getUsers st'). u = sanitizeUser a)
          \<and> getCurrentUser st' = Some u)
   \<and> (updateUser st userId updates = Inr (st', Success m u)
      \<longrightarrow> getp u ''password'' = None \<and> (\<exists>a \<in> set (getUsers st'). u = sanitizeUser a))
   \<and> getCurrentUser (setCurrentUser st a) = Some (sanitizeUser a)
   \<and> getp (sanitizeUser a) ''password'' = None
   \<and> (sessionRedacted st \<and> run st cs = Inr st'' \<longrightarrow> sessionRedacted st'')"
proof (intro conjI impI)
  assume "register e st ud = Inr (st', Success m u)"
  from register_Success [OF this] obtain h where
    "st' = saveUser st (newUser e ud h)" "u = sanitizeUser (newUser e ud h)" by blast
  then show "getp u ''password'' = None" "\<exists>a \<in> set (getUsers st'). u = sanitizeUser a"
    using saveUser_mem [of "newUser e ud h" st] by auto
next
  assume "login e st em pw = Inr (st', Success m u)"
  from login_Success [OF this] obtain user where
    st': "st' = setCurrentUser (saveUser st (setp user ''lastLogin'' (JDate (now e))))
                  (setp user ''lastLogin'' (JDate (now e)))"
    and u: "u = sanitizeUser (setp user ''lastLogin'' (JDate (now e)))" by blast
  show "getp u ''password'' = None" by (simp add: u)
  show "\<exists>a \<in> set (getUsers st'). u = sanitizeUser a"
    using saveUser_mem [of "setp user ''lastLogin'' (JDate (now e))" st]
    by (auto simp: st' u getUsers_def)
  show "getCurrentUser st' = Some u" by (simp add: st' u getCurrentUser_def)
next
  assume "updateUser st userId updates = Inr (st', Success m u)"
  from updateUser_Success [OF this] obtain user updates' where
    st': "st' = republish (saveUser st (assign user updates')) userId (assign user updates')"
    and u: "u = sanitizeUser (assign user updates')" by blast
  show "getp u ''password'' = None" by (simp add: u)
  show "\<exists>a \<in> set (getUsers st'). u = sanitizeUser a"
    using saveUser_mem [of "assign user updates'" st] by (auto simp: st' u getUsers_def)
next
  show "getCurrentUser (setCurrentUser st a) = Some (sanitizeUser a)"
    by (simp add: getCurrentUser_def)
  show "getp (sanitizeUser a) ''password'' = None" by simp
next
  assume "sessionRedacted st \<and> run st cs = Inr st''"
  then show "sessionRedacted st''" using run_redacted by blast
qed

theorem verifier_never_returned_witness:
  "register env0 emptyStore alice
     = Inr (aliceStore, Success MsgRegistered (sanitizeUser aliceAccount))
   \<and> getp (sanitizeUser aliceAccount) ''password'' = None
   \<and> login env1 aliceStore (js ''alice@example.com'') (js ''longenough'')
     = Inr (aliceLoggedIn, Success MsgLoggedIn (sanitizeUser aliceSeen))
   \<and> getp (sanitizeUser aliceSeen) ''password'' = None
   \<and> getCurrentUser aliceLoggedIn = Some (sanitizeUser aliceSeen)
   \<and> updateUser aliceStore aliceId [(''name'', JStr (js ''Alice Kim''))]
     = Inr (\<lparr>users = [setp aliceAccount ''name'' (JStr (js ''Alice Kim''))], session = None\<rparr>,
            Success MsgUpdated (sanitizeUser (setp aliceAccount ''name'' (JStr (js ''Alice Kim'')))))
   \<and> getp (sanitizeUser (setp aliceAccount ''name'' (JStr (js ''Alice Kim'')))) ''password'' = None
   \<and> sessionRedacted emptyStore
   \<and> run emptyStore
        [(env0, Register alice), (env1, Login (js ''alice@example.com'') (js ''longenough''))]
     = Inr aliceLoggedIn
   \<and> sessionRedacted aliceLoggedIn"
proof -
  have e: "sessionRedacted emptyStore"
    by (simp add: sessionRedacted_def getCurrentUser_def emptyStore_def)
  have r: "run emptyStore
        [(env0, Register alice), (env1, Login (js ''alice@example.com'') (js ''longenough''))]
     = Inr aliceLoggedIn"
    by (simp add: register_alice login_alice stateAfter_def)
  note t = verifier_never_returned
  from t [where e = env0 and st = emptyStore and ud = alice and st' = aliceStore
      and m = MsgRegistered and u = "sanitizeUser aliceAccount"] register_alice
  have 1: "getp (sanitizeUser aliceAccount) ''password'' = None" by blast
  from t [where e = env1 and st = aliceStore and em = "js ''alice@example.com''"
      and pw = "js ''longenough''" and st' = aliceLoggedIn and m = MsgLoggedIn
      and u = "sanitizeUser aliceSeen"] login_alice
  have 2: "getp (sanitizeUser aliceSeen) ''password'' = None
      \<and> getCurrentUser aliceLoggedIn = Some (sanitizeUser aliceSeen)" by blast
  from t [where st = emptyStore and st'' = aliceLoggedIn and cs = "[(env0, Register alice),
      (env1, Login (js ''alice@example.com'') (js ''longenough''))]"] e r
  have 3: "sessionRedacted aliceLoggedIn" by blast
  from 1 2 3 e r register_alice login_alice update_alice_name show ?thesis by simp
qed

subsection \<open>Unique emails\<close>

text \<open>The two checks that the service makes for an email already in the store.\<close>

lemma register_taken:
  assumes "findBy ''email'' (Some (JStr (email ud))) (getUsers st) \<noteq> None"
  shows "\<exists>m. register e st ud = Inr (st, Failure m)"
  using assms by (simp add: register_def)

lemma updateUser_conflict:
  assumes f: "findBy ''id'' (Some userId) (getUsers st) = Some user"
    and h: "hashUpdates updates = Inr updates'"
    and v: "getp updates ''email'' = Some v" "truthy v" "primitive (Some v)"
    and changed: "getp user ''email'' \<noteq> Some v"
    and other: "other \<in> set (getUsers st)" "getp other ''email'' = Some v"
      "getp other ''id'' \<noteq> Some userId"
  shows "updateUser st userId updates = Inr (st, Failure MsgEmailInUse)"
proof -
  have em: "getp updates' ''email'' = Some v"
    using getp_hashUpdates [OF h, of "''email''"] v(1) by simp
  have "list_ex (\<lambda>u. seq (getp u ''email'') (Some v) \<and> \<not> seq (getp u ''id'') (Some userId))
          (getUsers st)"
    unfolding list_ex_iff using other v(3) by (auto simp: seq_def)
  then show ?thesis
    using changed v(2,3) by (auto simp: updateUser_def f h em truthyo_def seq_def)
qed

text \<open>
  C2 (the code departs from the claim). The claim: the store never holds two accounts
  with the same email; \<open>register\<close> fails when the email is taken, \<open>updateUser\<close> fails
  when the patch moves the email to one that another account holds, and so every
  reachable state has each email on at most one account. The service makes both checks
  (\<open>register_taken\<close>, \<open>updateUser_conflict\<close>), but they do not keep the invariant. In the
  first run below, from the empty store, a sign-up is followed by an update whose patch
  has an \<open>id\<close> field: \<open>saveUser\<close> finds no record with the new id and appends, so the
  store holds two records with the one email. In the second run the check of
  \<open>updateUser\<close> is skipped because the new email is the empty string, which is falsy, so
  two accounts are both given the email \<^verbatim>\<open>''\<close>.
\<close>

theorem update_breaks_unique_email:
  "run emptyStore
       [(env0, Register alice), (env1, UpdateUser aliceId [(''id'', JStr (js ''intruder''))])]
     = Inr \<lparr>users = [aliceAccount, setp aliceAccount ''id'' (JStr (js ''intruder''))],
            session = None\<rparr>
   \<and> emails \<lparr>users = [aliceAccount, setp aliceAccount ''id'' (JStr (js ''intruder''))],
              session = None\<rparr>
     = [Some (JStr (js ''alice@example.com'')), Some (JStr (js ''alice@example.com''))]
   \<and> run emptyStore
       [(env0, Register alice), (env1, Register bob),
        (env1, UpdateUser aliceId [(''email'', JStr [])]),
        (env1, UpdateUser bobId [(''email'', JStr [])])]
     = Inr \<lparr>users = [setp aliceAccount ''email'' (JStr []), setp bobAccount ''email'' (JStr [])],
            session = None\<rparr>
   \<and> emails \<lparr>users = [setp aliceAccount ''email'' (JStr []),
                       setp bobAccount ''email'' (JStr [])], session = None\<rparr>
     = [Some (JStr []), Some (JStr [])]"
proof (intro conjI)
  show "run emptyStore
       [(env0, Register alice), (env1, UpdateUser aliceId [(''id'', JStr (js ''intruder''))])]
     = Inr \<lparr>users = [aliceAccount, setp aliceAccount ''id'' (JStr (js ''intruder''))],
            session = None\<rparr>"
    by (simp add: register_alice update_alice_id stateAfter_def)
  show "emails \<lparr>users = [aliceAccount, setp aliceAccount ''id'' (JStr (js ''intruder''))],
              session = None\<rparr>
     = [Some (JStr (js ''alice@example.com'')), Some (JStr (js ''alice@example.com''))]"
    by (simp add: emails_def getUsers_def getp_setp aliceAccount_email)
  let ?a = "setp aliceAccount ''email'' (JStr [])"
  let ?b = "setp bobAccount ''email'' (JStr [])"
  have a: "\<And>x. assign x [(''email'', JStr [])] = setp x ''email'' (JStr [])"
    by (simp add: assign_def setp_def)
  have s1: "saveUser twoStore ?a = \<lparr>users = [?a, bobAccount], session = None\<rparr>"
    by (simp add: saveUser_def getUsers_def twoStore_def getp_setp aliceAccount_id seq_def
          aliceId_def)
  have u1: "updateUser twoStore aliceId [(''email'', JStr [])]
      = Inr (\<lparr>users = [?a, bobAccount], session = None\<rparr>, Success MsgUpdated (sanitizeUser ?a))"
    by (simp add: updateUser_no_email [OF find_in_twoStore(1)] getp_def [of "[_]"] truthyo_def
          a s1 republish_def getCurrentUser_def)
  have f2: "findBy ''id'' (Some bobId) (getUsers \<lparr>users = [?a, bobAccount], session = None\<rparr>)
      = Some bobAccount"
    using ids_differ
    by (auto simp: findBy_def getUsers_def getp_setp aliceAccount_id bobAccount_id seq_def
          aliceId_def bobId_def)
  have s2: "saveUser \<lparr>users = [?a, bobAccount], session = None\<rparr> ?b
      = \<lparr>users = [?a, ?b], session = None\<rparr>"
    using ids_differ
    by (auto simp: saveUser_def getUsers_def getp_setp aliceAccount_id bobAccount_id seq_def
          aliceId_def bobId_def)
  have u2: "updateUser \<lparr>users = [?a, bobAccount], session = None\<rparr> bobId [(''email'', JStr [])]
      = Inr (\<lparr>users = [?a, ?b], session = None\<rparr>, Success MsgUpdated (sanitizeUser ?b))"
    by (simp add: updateUser_no_email [OF f2] getp_def [of "[_]"] truthyo_def a s2
          republish_def getCurrentUser_def)
  show "run emptyStore
       [(env0, Register alice), (env1, Register bob),
        (env1, UpdateUser aliceId [(''email'', JStr [])]),
        (env1, UpdateUser bobId [(''email'', JStr [])])]
     = Inr \<lparr>users = [?a, ?b], session = None\<rparr>"
    by (simp add: register_alice register_bob u1 u2 stateAfter_def)
  show "emails \<lparr>users = [?a, ?b], session = None\<rparr> = [Some (JStr []), Some (JStr [])]"
    by (simp add: emails_def getUsers_def getp_setp)
qed

subsection \<open>Calendar months\<close>

lemma div_step:
  "1 < k \<Longrightarrow> (a + 1) div k = a div k + (if (a + 1) mod k = 0 then 1 else 0)" for a k :: int
proof -
  assume k: "1 < k"
  define q where "q = a div k"
  define r where "r = a mod k"
  have eq: "a = q * k + r" by (simp add: q_def r_def)
  have r: "0 \<le> r" "r < k" using k by (simp_all add: r_def)
  show ?thesis
  proof (cases "r + 1 = k")
    case True
    have "a + 1 = (q + 1) * k" using eq True by (simp add: algebra_simps)
    then have "(a + 1) div k = q + 1" "(a + 1) mod k = 0"
      using k by simp_all
    then show ?thesis by (simp add: q_def)
  next
    case False
    then have lt: "r + 1 < k" using r by linarith
    have a1: "a + 1 = q * k + (r + 1)" using eq by simp
    have "(a + 1) div k = q" unfolding a1 using lt r(1) k by simp
    moreover have "(a + 1) mod k = r + 1" unfolding a1 using lt r(1) k by simp
    ultimately show ?thesis using r by (simp add: q_def)
  qed
qed

lemma DayFromYear_Suc: "DayFromYear (y + 1) = DayFromYear y + DaysInYear y"
proof -
  define A B C where "A = (y - 1969) div 4" and "B = (y - 1901) div 100"
    and "C = (y - 1601) div 400"
  define p4 p100 p400 where "p4 \<longleftrightarrow> y mod 4 = 0" and "p100 \<longleftrightarrow> y mod 100 = 0"
    and "p400 \<longleftrightarrow> y mod 400 = 0"
  have a: "(y + 1 - 1969) div 4 = A + (if p4 then 1 else 0)"
    unfolding A_def p4_def
    using div_step [of 4 "y - 1969"] mod_mult_self2 [of y 4 "- 492"] by (simp add: algebra_simps)
  have b: "(y + 1 - 1901) div 100 = B + (if p100 then 1 else 0)"
    unfolding B_def p100_def
    using div_step [of 100 "y - 1901"] mod_mult_self2 [of y 100 "- 19"]
    by (simp add: algebra_simps)
  have c: "(y + 1 - 1601) div 400 = C + (if p400 then 1 else 0)"
    unfolding C_def p400_def
    using div_step [of 400 "y - 1601"] mod_mult_self2 [of y 400 "- 4"]
    by (simp add: algebra_simps)
  have d1: "p100 \<longrightarrow> p4"
    unfolding p100_def p4_def
  proof
    assume "y mod 100 = 0"
    then have "y mod 100 mod 4 = 0" by simp
    moreover have "y mod 100 mod 4 = y mod 4" by (rule mod_mod_cancel) simp
    ultimately show "y mod 4 = 0" by simp
  qed
  have d2: "p400 \<longrightarrow> p100"
    unfolding p400_def p100_def
  proof
    assume "y mod 400 = 0"
    then have "y mod 400 mod 100 = 0" by simp
    moreover have "y mod 400 mod 100 = y mod 100" by (rule mod_mod_cancel) simp
    ultimately show "y mod 100 = 0" by simp
  qed
  have next_year: "DayFromYear (y + 1) =
      365 * (y + 1 - 1970) + (A + (if p4 then 1 else 0)) - (B + (if p100 then 1 else 0))
        + (C + (if p400 then 1 else 0))"
    by (simp only: DayFromYear_def a b c)
  have this_year: "DayFromYear y = 365 * (y - 1970) + A - B + C"
    by (simp only: DayFromYear_def A_def B_def C_def)
  have len: "DaysInYear y =
      (if \<not> p4 then 365 else if \<not> p100 then 366 else if \<not> p400 then 365 else 366)"
    by (simp only: DaysInYear_def p4_def p100_def p400_def)
  show ?thesis
    unfolding next_year this_year len using d1 d2 by (cases p4; cases p100; cases p400) simp_all
qed

lemma DaysInYear_leap: "DaysInYear y = 365 + InLeapYear y"
proof -
  have two: "\<And>a b c. (if a then (365::int) else if b then 366 else if c then 365 else 366) = 365
      \<or> (if a then (365::int) else if b then 366 else if c then 365 else 366) = 366"
    by simp
  have "DaysInYear y = 365 \<or> DaysInYear y = 366"
    unfolding DaysInYear_def by (rule two)
  then show ?thesis unfolding InLeapYear_def by auto
qed

lemma InLeapYear_range: "InLeapYear y = 0 \<or> InLeapYear y = 1"
  unfolding InLeapYear_def by simp

lemma Day_TimeWithinDay: "Day t * msPerDay + TimeWithinDay t = t"
  by (simp add: Day_def TimeWithinDay_def)

lemma MonthFromDay_range: "MonthFromDay dw l \<in> {0, 1, 2, 3, 4, 5, 6, 7, 8, 9, 10, 11}"
  unfolding MonthFromDay_def by simp

text \<open>For a month index from 0 to 11 nothing is carried into the year; the month
  after starts 28 to 31 days later, also across the end of the year.\<close>

lemma MakeDay_same_month:
  assumes "m \<in> {0, 1, 2, 3, 4, 5, 6, 7, 8, 9, 10, 11}"
  shows "MakeDay y m date = DayFromYear y + monthStart (InLeapYear y) m + date - 1"
  using assms by (auto simp: MakeDay_def Let_def)

lemma MakeDay_next_month:
  assumes "m \<in> {0, 1, 2, 3, 4, 5, 6, 7, 8, 9, 10, 11}"
  shows "\<exists>k. 28 \<le> k \<and> k \<le> 31
           \<and> MakeDay y (m + 1) date = MakeDay y m date + k"
proof -
  define l where "l = InLeapYear y"
  have l: "l = 0 \<or> l = 1" unfolding l_def by (rule InLeapYear_range)
  have dec: "DayFromYear (y + 1) = DayFromYear y + 365 + l"
    by (simp add: DayFromYear_Suc DaysInYear_leap l_def)
  have same: "MakeDay y m date = DayFromYear y + monthStart l m + date - 1"
    unfolding l_def by (rule MakeDay_same_month [OF assms])
  have "MakeDay y (m + 1) date - MakeDay y m date \<in> {28, 29, 30, 31}"
    unfolding same using assms l
    by (auto simp: MakeDay_def Let_def monthStart_def dec l_def [symmetric])
  then show ?thesis by (intro exI [of _ "MakeDay y (m + 1) date - MakeDay y m date"]) auto
qed

lemma MakeDay_mono_month:
  assumes "m \<in> {0, 1, 2, 3, 4, 5, 6, 7, 8, 9, 10, 11}"
  shows "MakeDay y (m + 1) date \<le> MakeDay y (m + 2) date"
proof (cases "m = 11")
  case True
  have "MakeDay y 12 date = MakeDay (y + 1) 0 date" "MakeDay y 13 date = MakeDay (y + 1) (0 + 1) date"
    by (simp_all add: MakeDay_def Let_def)
  moreover from MakeDay_next_month [of 0 "y + 1" date]
  have "MakeDay (y + 1) 0 date \<le> MakeDay (y + 1) (0 + 1) date" by auto
  ultimately show ?thesis by (simp add: True)
next
  case False
  with assms have "m + 1 \<in> {0, 1, 2, 3, 4, 5, 6, 7, 8, 9, 10, 11}" by auto
  from MakeDay_next_month [OF this, of y date] show ?thesis by (auto simp: add.assoc)
qed

lemma MakeDay_today: "MakeDay (YearFromTime lt) (MonthFromTime lt) (DateFromTime lt) = Day lt"
proof -
  have "MonthFromTime lt \<in> {0, 1, 2, 3, 4, 5, 6, 7, 8, 9, 10, 11}"
    unfolding MonthFromTime_def by (rule MonthFromDay_range)
  from MakeDay_same_month [OF this] show ?thesis
    by (simp add: DateFromTime_def DayWithinYear_def)
qed

lemma MakeDate_shift: "MakeDate (Day lt + k) (TimeWithinDay lt) = lt + k * msPerDay"
proof -
  have "MakeDate (Day lt + k) (TimeWithinDay lt)
      = (Day lt * msPerDay + TimeWithinDay lt) + k * msPerDay"
    by (simp add: MakeDate_def algebra_simps)
  then show ?thesis by (simp only: Day_TimeWithinDay)
qed

text \<open>
  One calendar month on. In local time \<^verbatim>\<open>setMonth\<close> moves the date by the 28 to 31
  days of the month; the offsets in force at the two ends need not be the same, so for
  a zone whose offsets stay within a day of UTC the instant moves by 26 to 33 days. If
  that leaves the range of time values, the date is the invalid one.
\<close>

lemma setMonth_next:
  assumes zone: "\<forall>t. \<bar>offsetUTC e t\<bar> \<le> msPerDay \<and> \<bar>offsetLocal e t\<bar> \<le> msPerDay"
  shows "\<exists>x. setMonth e t (getMonth e t + 1) = TimeClip x
           \<and> t + 26 * msPerDay \<le> x \<and> x \<le> t + 33 * msPerDay"
proof -
  define lt where "lt = LocalTime e t"
  have m: "MonthFromTime lt \<in> {0, 1, 2, 3, 4, 5, 6, 7, 8, 9, 10, 11}"
    unfolding MonthFromTime_def by (rule MonthFromDay_range)
  from MakeDay_next_month [OF m, of "YearFromTime lt" "DateFromTime lt"] obtain k where
    k: "28 \<le> k" "k \<le> 31"
    and d: "MakeDay (YearFromTime lt) (MonthFromTime lt + 1) (DateFromTime lt) = Day lt + k"
    by (auto simp: MakeDay_today)
  define x where "x = UTC e (lt + k * msPerDay)"
  have sm: "setMonth e t (getMonth e t + 1) = TimeClip x"
    by (simp only: setMonth_def getMonth_def Let_def lt_def [symmetric] d MakeDate_shift x_def)
  have pos: "0 < msPerDay" by (simp add: msPerDay_def)
  from k pos have kd: "28 * msPerDay \<le> k * msPerDay" "k * msPerDay \<le> 31 * msPerDay"
    by simp_all
  have x: "x = t + offsetUTC e t + k * msPerDay - offsetLocal e (lt + k * msPerDay)"
    by (simp add: x_def UTC_def lt_def LocalTime_def)
  from zone have "\<bar>offsetUTC e t\<bar> \<le> msPerDay"
    "\<bar>offsetLocal e (lt + k * msPerDay)\<bar> \<le> msPerDay" by simp_all
  with kd have "t + 26 * msPerDay \<le> x" "x \<le> t + 33 * msPerDay"
    unfolding x by linarith+
  with sm show ?thesis by blast
qed

lemma setMonth_out_of_range:
  assumes zone: "\<forall>t. \<bar>offsetUTC e t\<bar> \<le> msPerDay \<and> \<bar>offsetLocal e t\<bar> \<le> msPerDay"
    and late: "maxTime < t + 26 * msPerDay"
  shows "setMonth e t (getMonth e t + 1) = None"
proof -
  from setMonth_next [OF zone, of t] obtain x where
    "setMonth e t (getMonth e t + 1) = TimeClip x" "t + 26 * msPerDay \<le> x" by blast
  with late show ?thesis by (simp add: TimeClip_def)
qed

text \<open>The calendar on the example clock: 3 November 2026, 19:00 in Seoul; a month
  later is 3 December, 30 days on.\<close>

lemma env0_calendar:
  "YearFromTime (LocalTime env0 (now env0)) = 2026"
  "getMonth env0 (now env0) = 10"
  "DateFromTime (LocalTime env0 (now env0)) = 3"
  "setMonth env0 (now env0) (getMonth env0 (now env0) + 1) = Some 1796292000000"
proof -
  have d: "Day (LocalTime env0 (now env0)) = 20760"
    by (simp add: Day_def LocalTime_def env0_def msPerDay_def)
  have y: "YearFromDay 20760 = 2026"
    by (simp add: YearFromDay_def yearUp.simps DayFromYear_def)
  show y': "YearFromTime (LocalTime env0 (now env0)) = 2026"
    by (simp add: YearFromTime_def d y)
  have l: "InLeapYear 2026 = 0" by (simp add: InLeapYear_def DaysInYear_def)
  have w: "DayWithinYear (LocalTime env0 (now env0)) = 306"
    by (simp add: DayWithinYear_def d y' DayFromYear_def)
  show m: "getMonth env0 (now env0) = 10"
    by (simp add: getMonth_def MonthFromTime_def y' l w MonthFromDay_def)
  then have m': "MonthFromTime (LocalTime env0 (now env0)) = 10" by (simp add: getMonth_def)
  show dt: "DateFromTime (LocalTime env0 (now env0)) = 3"
    by (simp add: DateFromTime_def y' l w m' monthStart_def)
  have tw: "TimeWithinDay (LocalTime env0 (now env0)) = 68400000"
    by (simp add: TimeWithinDay_def LocalTime_def env0_def msPerDay_def)
  have md: "MakeDay 2026 11 3 = 20790"
    by (simp add: MakeDay_def Let_def l monthStart_def DayFromYear_def)
  show "setMonth env0 (now env0) (getMonth env0 (now env0) + 1) = Some 1796292000000"
    by (simp add: m setMonth_def Let_def y' dt tw md MakeDate_def UTC_def msPerDay_def
          TimeClip_def maxTime_def)
      (simp add: env0_def)
qed

text \<open>
  A purchase in New York on 20 October 2026 at noon, daylight time. A month later, on
  20 November at noon, standard time is in force: the expiry is 31 days and one hour
  after the purchase.
\<close>

lemma newYork_calendar:
  "setMonth (newYork 1792512000000) 1792512000000 (getMonth (newYork 1792512000000) 1792512000000 + 1)
     = Some 1795194000000"
proof -
  let ?e = "newYork 1792512000000"
  have lt: "LocalTime ?e 1792512000000 = 1792497600000"
    by (simp add: LocalTime_def newYork_def nyOffsetUTC_def)
  have d: "Day 1792497600000 = 20746" by (simp add: Day_def msPerDay_def)
  have y: "YearFromDay 20746 = 2026"
    by (simp add: YearFromDay_def yearUp.simps DayFromYear_def)
  have y': "YearFromTime 1792497600000 = 2026" by (simp add: YearFromTime_def d y)
  have l: "InLeapYear 2026 = 0" by (simp add: InLeapYear_def DaysInYear_def)
  have w: "DayWithinYear 1792497600000 = 292"
    by (simp add: DayWithinYear_def d y' DayFromYear_def)
  have m: "MonthFromTime 1792497600000 = 9"
    by (simp add: MonthFromTime_def y' l w MonthFromDay_def)
  have dt: "DateFromTime 1792497600000 = 20"
    by (simp add: DateFromTime_def y' l w m monthStart_def)
  have tw: "TimeWithinDay 1792497600000 = 43200000"
    by (simp add: TimeWithinDay_def msPerDay_def)
  have md: "MakeDay 2026 10 20 = 20777"
    by (simp add: MakeDay_def Let_def l monthStart_def DayFromYear_def)
  have civil: "MakeDate 20777 43200000 = 1795176000000"
    by (simp add: MakeDate_def msPerDay_def)
  have inst: "UTC ?e 1795176000000 = 1795194000000"
    by (simp add: UTC_def newYork_def nyOffsetLocal_def)
  show ?thesis
    by (simp add: setMonth_def getMonth_def Let_def lt y' m dt tw md civil inst TimeClip_def
          maxTime_def)
qed

subsection \<open>Premium membership\<close>

lemma find_update_first:
  "findIndex P xs = Some i \<Longrightarrow> P y \<Longrightarrow> find P (xs[i := y]) = Some y"
proof (induction xs arbitrary: i)
  case Nil
  then show ?case by simp
next
  case (Cons x xs)
  then show ?case by (cases i) (auto split: if_splits)
qed

lemma findBy_after_save:
  assumes f: "findBy ''id'' (Some userId) (getUsers st) = Some user"
    and id: "getp user' ''id'' = Some userId"
  shows "findBy ''id'' (Some userId) (getUsers (saveUser st user')) = Some user'"
    and "session (saveUser st user') = session st"
proof -
  from findBy_Some [OF f] obtain i where
    i: "findIndex (\<lambda>a. seq (getp a ''id'') (Some userId)) (getUsers st) = Some i"
    and p: "primitive (Some userId)" by (auto simp: seq_Some)
  have sv: "saveUser st user' = st\<lparr>users := (getUsers st)[i := user']\<rparr>"
    by (simp add: saveUser_def id i)
  have "seq (getp user' ''id'') (Some userId)" using p by (simp add: id seq_def)
  from find_update_first [OF i, of user', OF this]
  show "findBy ''id'' (Some userId) (getUsers (saveUser st user')) = Some user'"
    by (simp add: sv findBy_def getUsers_def)
  show "session (saveUser st user') = session st" by simp
qed

lemma isPremiumUser_dated:
  assumes "getCurrentUser st = Some user"
    and "getp user ''membershipType'' = Some (JStr (js ''premium''))"
    and "getp user ''premiumExpiry'' = Some (JDate expiry)"
  shows "isPremiumUser e st = Inr (now e < expiry)"
  using assms by (simp add: isPremiumUser_def seq_def truthyo_def)

lemma addPurchaseHistory_monthly:
  assumes cur: "getCurrentUser st = Some user"
    and uid: "getp user ''id'' = Some userId"
    and f: "findBy ''id'' (Some userId) (getUsers st) = Some account"
    and h: "historyOf account ''purchaseHistory'' = Inr history"
    and ty: "getp purchase ''type'' = Some (JStr (js ''premium_monthly''))"
    and sm: "setMonth e (now e) (getMonth e (now e) + 1) = Some expiry"
  shows "\<exists>st' r current. addPurchaseHistory e st userId purchase = Inr (st', r)
           \<and> getCurrentUser st' = Some current
           \<and> getp current ''membershipType'' = Some (JStr (js ''premium''))
           \<and> getp current ''premiumExpiry'' = Some (JDate expiry)"
proof -
  define user1 where "user1 = setp account ''purchaseHistory''
      (JArr (JObj (newRecord e ''purchase_'' purchase) # history))"
  define patch where "patch = [(''membershipType'', JStr (js ''premium'')),
      (''premiumExpiry'', JDate expiry)]"
  define user2 where "user2 = assign user1 patch"
  define st1 where "st1 = saveUser st user1"
  from findBy_Some [OF f] have aid: "getp account ''id'' = Some userId"
    and p: "primitive (Some userId)" by (simp_all add: seq_Some)
  have id1: "getp user1 ''id'' = Some userId" by (simp add: user1_def getp_setp aid)
  have f1: "findBy ''id'' (Some userId) (getUsers st1) = Some user1"
    and s1: "session st1 = session st"
    unfolding st1_def by (rule findBy_after_save [OF f id1])+
  have np: "getp patch ''password'' = None" "\<not> truthyo (getp patch ''email'')"
    by (simp_all add: patch_def getp_def truthyo_def)
  have up: "updateUser st1 userId patch
      = Inr (republish (saveUser st1 user2) userId user2, Success MsgUpdated (sanitizeUser user2))"
    unfolding user2_def by (rule updateUser_no_email [OF f1 np])
  have rp: "getCurrentUser (republish (saveUser st1 user2) userId user2)
      = Some (sanitizeUser user2)"
    using cur uid p by (simp add: republish_def getCurrentUser_def s1 seq_def)
  have monthly: "seq (getp purchase ''type'') (Some (JStr (js ''premium_monthly'')))"
    "\<not> seq (getp purchase ''type'') (Some (JStr (js ''premium_yearly'')))"
    by (simp_all add: ty seq_def)
  have "addPurchaseHistory e st userId purchase
      = Inr (republish (saveUser st1 user2) userId user2,
             Success NoMessage (newRecord e ''purchase_'' purchase))"
    by (simp add: addPurchaseHistory_def f h Let_def monthly sm toISOString_def
          user1_def [symmetric] st1_def [symmetric] patch_def [symmetric] up)
  moreover have "getp (sanitizeUser user2) ''membershipType'' = Some (JStr (js ''premium''))"
    "getp (sanitizeUser user2) ''premiumExpiry'' = Some (JDate expiry)"
    by (simp_all add: getp_sanitizeUser user2_def getp_assign patch_def getp_def [of "_ # _"])
  ultimately show ?thesis using rp by blast
qed

text \<open>When the month after the purchase is past the range of time values, the call
  throws, and the account has been saved with the purchase record by then.\<close>

lemma addPurchaseHistory_out_of_range:
  assumes f: "findBy ''id'' (Some userId) (getUsers st) = Some account"
    and h: "historyOf account ''purchaseHistory'' = Inr history"
    and ty: "getp purchase ''type'' = Some (JStr (js ''premium_monthly''))"
    and sm: "setMonth e (now e) (getMonth e (now e) + 1) = None"
  shows "addPurchaseHistory e st userId purchase
     = Inl (RangeError,
            saveUser st (setp account ''purchaseHistory''
              (JArr (JObj (newRecord e ''purchase_'' purchase) # history))))"
proof -
  have monthly: "seq (getp purchase ''type'') (Some (JStr (js ''premium_monthly'')))"
    "\<not> seq (getp purchase ''type'') (Some (JStr (js ''premium_yearly'')))"
    by (simp_all add: ty seq_def)
  show ?thesis
    by (simp add: addPurchaseHistory_def f h Let_def monthly sm toISOString_def)
qed

lemma aliceSeen_fields:
  "getp aliceSeen ''id'' = Some aliceId"
  "getp aliceSeen ''membershipType'' = Some (JStr (js ''free''))"
  "historyOf aliceSeen ''purchaseHistory'' = Inr []"
  by (simp_all add: aliceSeen_def getp_setp aliceAccount_id historyOf_def)
    (simp_all add: aliceAccount_def newUser_def getp_def)

lemma find_aliceSeen: "findBy ''id'' (Some aliceId) (getUsers aliceLoggedIn) = Some aliceSeen"
  by (simp add: findBy_def getUsers_def aliceLoggedIn_def aliceSeen_fields seq_def aliceId_def)

lemma current_aliceSeen: "getCurrentUser aliceLoggedIn = Some (sanitizeUser aliceSeen)"
  by (simp add: getCurrentUser_def aliceLoggedIn_def)

lemma premium_fields:
  "getp (sanitizeUser alicePremium) ''membershipType'' = Some (JStr (js ''premium''))"
  "getp (sanitizeUser alicePremium) ''premiumExpiry'' = Some JNull"
  "getp (sanitizeUser aliceMonthly) ''membershipType'' = Some (JStr (js ''premium''))"
  "getp (sanitizeUser aliceMonthly) ''premiumExpiry'' = Some (JDate 1796292000000)"
  by (simp_all add: getp_sanitizeUser aliceMonthly_def alicePremium_def aliceSeen_def getp_setp)
    (simp add: aliceAccount_def newUser_def getp_def)

lemma zone_env0:
  "\<forall>t. \<bar>offsetUTC (at c) t\<bar> \<le> msPerDay \<and> \<bar>offsetLocal (at c) t\<bar> \<le> msPerDay"
  by (simp add: at_def env0_def msPerDay_def)

lemma zone_newYork:
  "\<forall>t. \<bar>offsetUTC (newYork c) t\<bar> \<le> msPerDay \<and> \<bar>offsetLocal (newYork c) t\<bar> \<le> msPerDay"
  by (simp add: newYork_def nyOffsetUTC_def nyOffsetLocal_def msPerDay_def)

text \<open>A purchase on a clock at the end of the range of time values.\<close>

lemma purchase_at_end_of_range:
  "addPurchaseHistory (at maxTime) aliceLoggedIn aliceId
       [(''type'', JStr (js ''premium_monthly''))]
     = Inl (RangeError,
            \<lparr>users = [setp aliceSeen ''purchaseHistory''
                 (JArr [JObj (newRecord (at maxTime) ''purchase_''
                                [(''type'', JStr (js ''premium_monthly''))])])],
              session = Some (sanitizeUser aliceSeen)\<rparr>)"
proof -
  have n: "now (at maxTime) = maxTime" by (simp add: at_def)
  have "maxTime < maxTime + 26 * msPerDay" by (simp add: msPerDay_def)
  from setMonth_out_of_range [OF zone_env0 this]
  have sm: "setMonth (at maxTime) (now (at maxTime)) (getMonth (at maxTime) (now (at maxTime)) + 1)
      = None"
    by (simp only: n)
  have ty: "getp [(''type'', JStr (js ''premium_monthly''))] ''type''
      = Some (JStr (js ''premium_monthly''))"
    by (simp add: getp_def)
  have sv: "\<And>v. saveUser aliceLoggedIn (setp aliceSeen ''purchaseHistory'' v)
      = \<lparr>users = [setp aliceSeen ''purchaseHistory'' v], session = Some (sanitizeUser aliceSeen)\<rparr>"
    by (simp add: saveUser_def getUsers_def aliceLoggedIn_def getp_setp aliceSeen_fields seq_def
          aliceId_def)
  from addPurchaseHistory_out_of_range [OF find_aliceSeen aliceSeen_fields(3) ty sm]
  show ?thesis by (simp only: sv)
qed

text \<open>
  C7. \<open>isPremiumUser\<close> reads the current user. It is false when there is none or when
  the membership type is not premium; for a premium member it is true when the expiry is
  \<^verbatim>\<open>null\<close>, and otherwise true exactly when the expiry is strictly after the clock.
  Hence, after a \<^verbatim>\<open>premium_monthly\<close> purchase by the current user at \<open>now e\<close>, it is
  true at every clock less than 26 days after the purchase, so 15 days after it, and
  false at every clock 33 days or more after it, so two calendar months after it, which
  are 59 days at least: the expiry is one calendar month after the purchase in local
  time. This is for a time zone whose offsets stay within a day of UTC, and for clocks
  in the range of time values.
\<close>

theorem isPremiumUser_by_expiry:
  "(getCurrentUser st = None \<longrightarrow> isPremiumUser e st = Inr False)
   \<and> (getCurrentUser st = Some user
       \<and> getp user ''membershipType'' \<noteq> Some (JStr (js ''premium''))
      \<longrightarrow> isPremiumUser e st = Inr False)
   \<and> (getCurrentUser st = Some user
       \<and> getp user ''membershipType'' = Some (JStr (js ''premium''))
       \<and> getp user ''premiumExpiry'' = Some JNull
      \<longrightarrow> isPremiumUser e st = Inr True)
   \<and> (getCurrentUser st = Some user
       \<and> getp user ''membershipType'' = Some (JStr (js ''premium''))
       \<and> getp user ''premiumExpiry'' = Some (JDate expiry)
      \<longrightarrow> isPremiumUser e st = Inr (expiry > now e))
   \<and> (getCurrentUser st = Some user \<and> getp user ''id'' = Some userId
       \<and> findBy ''id'' (Some userId) (getUsers st) = Some account
       \<and> historyOf account ''purchaseHistory'' = Inr history
       \<and> getp purchase ''type'' = Some (JStr (js ''premium_monthly''))
       \<and> (\<forall>t. \<bar>offsetUTC e t\<bar> \<le> msPerDay \<and> \<bar>offsetLocal e t\<bar> \<le> msPerDay)
       \<and> - maxTime \<le> now e \<and> now e \<le> early \<and> early < now e + 26 * msPerDay
       \<and> now e + 33 * msPerDay \<le> later \<and> later \<le> maxTime
      \<longrightarrow> (\<exists>st' r. addPurchaseHistory e st userId purchase = Inr (st', r)
            \<and> isPremiumUser (e\<lparr>now := now e + 15 * msPerDay\<rparr>) st' = Inr True
            \<and> isPremiumUser (e\<lparr>now := early\<rparr>) st' = Inr True
            \<and> isPremiumUser (e\<lparr>now := later\<rparr>) st' = Inr False))"
proof (intro conjI impI)
  assume "getCurrentUser st = None"
  then show "isPremiumUser e st = Inr False" by (simp add: isPremiumUser_def)
next
  assume "getCurrentUser st = Some user
       \<and> getp user ''membershipType'' \<noteq> Some (JStr (js ''premium''))"
  then show "isPremiumUser e st = Inr False" by (simp add: isPremiumUser_def seq_def)
next
  assume "getCurrentUser st = Some user
       \<and> getp user ''membershipType'' = Some (JStr (js ''premium''))
       \<and> getp user ''premiumExpiry'' = Some JNull"
  then show "isPremiumUser e st = Inr True"
    by (simp add: isPremiumUser_def seq_def truthyo_def)
next
  assume "getCurrentUser st = Some user
       \<and> getp user ''membershipType'' = Some (JStr (js ''premium''))
       \<and> getp user ''premiumExpiry'' = Some (JDate expiry)"
  then show "isPremiumUser e st = Inr (expiry > now e)" by (simp add: isPremiumUser_dated)
next
  assume a: "getCurrentUser st = Some user \<and> getp user ''id'' = Some userId
       \<and> findBy ''id'' (Some userId) (getUsers st) = Some account
       \<and> historyOf account ''purchaseHistory'' = Inr history
       \<and> getp purchase ''type'' = Some (JStr (js ''premium_monthly''))
       \<and> (\<forall>t. \<bar>offsetUTC e t\<bar> \<le> msPerDay \<and> \<bar>offsetLocal e t\<bar> \<le> msPerDay)
       \<and> - maxTime \<le> now e \<and> now e \<le> early \<and> early < now e + 26 * msPerDay
       \<and> now e + 33 * msPerDay \<le> later \<and> later \<le> maxTime"
  then have zone: "\<forall>t. \<bar>offsetUTC e t\<bar> \<le> msPerDay \<and> \<bar>offsetLocal e t\<bar> \<le> msPerDay"
    and clock: "- maxTime \<le> now e" "early < now e + 26 * msPerDay"
      "now e + 33 * msPerDay \<le> later" "later \<le> maxTime"
    by simp_all
  have pos: "0 < msPerDay" by (simp add: msPerDay_def)
  from setMonth_next [OF zone, of "now e"] obtain x where
    sm: "setMonth e (now e) (getMonth e (now e) + 1) = TimeClip x"
    and lo: "now e + 26 * msPerDay \<le> x" and hi: "x \<le> now e + 33 * msPerDay"
    by blast
  from lo hi clock pos have "\<bar>x\<bar> \<le> maxTime" by linarith
  with sm have sm': "setMonth e (now e) (getMonth e (now e) + 1) = Some x"
    by (simp add: TimeClip_def)
  from a addPurchaseHistory_monthly [of st user userId account history purchase e x, OF _ _ _ _ _ sm']
  obtain st' r current where
    run: "addPurchaseHistory e st userId purchase = Inr (st', r)"
    and cur: "getCurrentUser st' = Some current"
    and mt: "getp current ''membershipType'' = Some (JStr (js ''premium''))"
    and ex: "getp current ''premiumExpiry'' = Some (JDate x)"
    by blast
  from lo pos have fifteen: "now e + 15 * msPerDay < x" by linarith
  from lo clock have early: "early < x" by linarith
  from hi clock have late: "\<not> later < x" by linarith
  have "isPremiumUser (e\<lparr>now := now e + 15 * msPerDay\<rparr>) st' = Inr True"
    using isPremiumUser_dated [OF cur mt ex] fifteen by simp
  moreover have "isPremiumUser (e\<lparr>now := early\<rparr>) st' = Inr True"
    using isPremiumUser_dated [OF cur mt ex] early by simp
  moreover have "isPremiumUser (e\<lparr>now := later\<rparr>) st' = Inr False"
    using isPremiumUser_dated [OF cur mt ex] late by simp
  ultimately show "\<exists>st' r. addPurchaseHistory e st userId purchase = Inr (st', r)
            \<and> isPremiumUser (e\<lparr>now := now e + 15 * msPerDay\<rparr>) st' = Inr True
            \<and> isPremiumUser (e\<lparr>now := early\<rparr>) st' = Inr True
            \<and> isPremiumUser (e\<lparr>now := later\<rparr>) st' = Inr False"
    using run by blast
qed

theorem isPremiumUser_by_expiry_witness:
  "getCurrentUser aliceStore = None \<and> isPremiumUser env1 aliceStore = Inr False
   \<and> getCurrentUser aliceLoggedIn = Some (sanitizeUser aliceSeen)
   \<and> isPremiumUser env1 aliceLoggedIn = Inr False
   \<and> isPremiumUser env1 lifetimeStore = Inr True
   \<and> isPremiumUser env1 monthlyStore = Inr True
   \<and> isPremiumUser (at 1796292000000) monthlyStore = Inr False
   \<and> (\<exists>st' r. addPurchaseHistory env0 aliceLoggedIn aliceId
                  [(''type'', JStr (js ''premium_monthly''))] = Inr (st', r)
         \<and> isPremiumUser (env0\<lparr>now := now env0 + 15 * msPerDay\<rparr>) st' = Inr True
         \<and> isPremiumUser (env0\<lparr>now := now env0 + 25 * msPerDay\<rparr>) st' = Inr True
         \<and> isPremiumUser (env0\<lparr>now := now env0 + 61 * msPerDay\<rparr>) st' = Inr False)
   \<and> (\<exists>st' r. addPurchaseHistory (newYork 1792512000000) aliceLoggedIn aliceId
                  [(''type'', JStr (js ''premium_monthly''))] = Inr (st', r)
         \<and> isPremiumUser (newYork (1792512000000 + 15 * msPerDay)) st' = Inr True
         \<and> isPremiumUser (newYork (1792512000000 + 25 * msPerDay)) st' = Inr True
         \<and> isPremiumUser (newYork (1792512000000 + 61 * msPerDay)) st' = Inr False
         \<and> isPremiumUser (newYork 1795193999999) st' = Inr True
         \<and> isPremiumUser (newYork 1795194000000) st' = Inr False)"
proof -
  note t = isPremiumUser_by_expiry
  have n: "getCurrentUser aliceStore = None"
    by (simp add: getCurrentUser_def session_aliceStore)
  from t [where st = aliceStore and e = env1] n
  have 1: "isPremiumUser env1 aliceStore = Inr False" by blast
  from t [where st = aliceLoggedIn and e = env1 and user = "sanitizeUser aliceSeen"]
    current_aliceSeen
  have 2: "isPremiumUser env1 aliceLoggedIn = Inr False"
    by (simp add: getp_sanitizeUser aliceSeen_fields)
  from t [where st = lifetimeStore and e = env1 and user = "sanitizeUser alicePremium"]
  have 3: "isPremiumUser env1 lifetimeStore = Inr True"
    by (simp add: getCurrentUser_def lifetimeStore_def premium_fields)
  from t [where st = monthlyStore and e = env1 and user = "sanitizeUser aliceMonthly"
      and expiry = 1796292000000]
  have 4: "isPremiumUser env1 monthlyStore = Inr True"
    by (simp add: getCurrentUser_def monthlyStore_def premium_fields env1_def)
  from t [where st = monthlyStore and e = "at 1796292000000"
      and user = "sanitizeUser aliceMonthly" and expiry = 1796292000000]
  have 5: "isPremiumUser (at 1796292000000) monthlyStore = Inr False"
    by (simp add: getCurrentUser_def monthlyStore_def premium_fields at_def)
  have ty: "getp [(''type'', JStr (js ''premium_monthly''))] ''type''
      = Some (JStr (js ''premium_monthly''))"
    by (simp add: getp_def)
  have id: "getp (sanitizeUser aliceSeen) ''id'' = Some aliceId"
    by (simp add: getp_sanitizeUser aliceSeen_fields)
  have z0: "\<forall>t. \<bar>offsetUTC env0 t\<bar> \<le> msPerDay \<and> \<bar>offsetLocal env0 t\<bar> \<le> msPerDay"
    by (simp add: env0_def msPerDay_def)
  have c0: "- maxTime \<le> now env0" "now env0 \<le> now env0 + 25 * msPerDay"
    "now env0 + 25 * msPerDay < now env0 + 26 * msPerDay"
    "now env0 + 33 * msPerDay \<le> now env0 + 61 * msPerDay"
    "now env0 + 61 * msPerDay \<le> maxTime"
    by (simp_all add: env0_def msPerDay_def maxTime_def)
  from t [where st = aliceLoggedIn and e = env0 and user = "sanitizeUser aliceSeen"
      and userId = aliceId and account = aliceSeen and history = "[]"
      and purchase = "[(''type'', JStr (js ''premium_monthly''))]"
      and early = "now env0 + 25 * msPerDay" and later = "now env0 + 61 * msPerDay"]
    current_aliceSeen find_aliceSeen aliceSeen_fields(3) ty id z0 c0
  have 6: "\<exists>st' r. addPurchaseHistory env0 aliceLoggedIn aliceId
                  [(''type'', JStr (js ''premium_monthly''))] = Inr (st', r)
         \<and> isPremiumUser (env0\<lparr>now := now env0 + 15 * msPerDay\<rparr>) st' = Inr True
         \<and> isPremiumUser (env0\<lparr>now := now env0 + 25 * msPerDay\<rparr>) st' = Inr True
         \<and> isPremiumUser (env0\<lparr>now := now env0 + 61 * msPerDay\<rparr>) st' = Inr False"
    by blast
  let ?e = "newYork 1792512000000"
  have clk: "\<And>c. ?e\<lparr>now := c\<rparr> = newYork c" by (simp add: newYork_def)
  have ne: "now ?e = 1792512000000" by (simp add: newYork_def)
  have c1: "- maxTime \<le> now ?e" "now ?e \<le> now ?e + 25 * msPerDay"
    "now ?e + 25 * msPerDay < now ?e + 26 * msPerDay"
    "now ?e + 33 * msPerDay \<le> now ?e + 61 * msPerDay"
    "now ?e + 61 * msPerDay \<le> maxTime"
    by (simp_all add: ne msPerDay_def maxTime_def)
  from t [where st = aliceLoggedIn and e = ?e and user = "sanitizeUser aliceSeen"
      and userId = aliceId and account = aliceSeen and history = "[]"
      and purchase = "[(''type'', JStr (js ''premium_monthly''))]"
      and early = "now ?e + 25 * msPerDay" and later = "now ?e + 61 * msPerDay"]
    current_aliceSeen find_aliceSeen aliceSeen_fields(3) ty id zone_newYork [of 1792512000000] c1
  obtain st' r where
    run: "addPurchaseHistory ?e aliceLoggedIn aliceId
            [(''type'', JStr (js ''premium_monthly''))] = Inr (st', r)"
    and p15: "isPremiumUser (newYork (1792512000000 + 15 * msPerDay)) st' = Inr True"
    and p25: "isPremiumUser (newYork (1792512000000 + 25 * msPerDay)) st' = Inr True"
    and p61: "isPremiumUser (newYork (1792512000000 + 61 * msPerDay)) st' = Inr False"
    unfolding clk ne by blast
  have sm: "setMonth ?e (now ?e) (getMonth ?e (now ?e) + 1) = Some 1795194000000"
    unfolding ne by (rule newYork_calendar)
  from addPurchaseHistory_monthly [OF current_aliceSeen id find_aliceSeen aliceSeen_fields(3)
      ty sm] run
  obtain current where cur: "getCurrentUser st' = Some current"
    and mt: "getp current ''membershipType'' = Some (JStr (js ''premium''))"
    and ex: "getp current ''premiumExpiry'' = Some (JDate 1795194000000)"
    by auto
  have pre: "isPremiumUser (newYork 1795193999999) st' = Inr True"
    using isPremiumUser_dated [OF cur mt ex, of "newYork 1795193999999"]
    by (simp add: newYork_def)
  have post: "isPremiumUser (newYork 1795194000000) st' = Inr False"
    using isPremiumUser_dated [OF cur mt ex, of "newYork 1795194000000"]
    by (simp add: newYork_def)
  from run p15 p25 p61 pre post
  have 7: "\<exists>st' r. addPurchaseHistory ?e aliceLoggedIn aliceId
                  [(''type'', JStr (js ''premium_monthly''))] = Inr (st', r)
         \<and> isPremiumUser (newYork (1792512000000 + 15 * msPerDay)) st' = Inr True
         \<and> isPremiumUser (newYork (1792512000000 + 25 * msPerDay)) st' = Inr True
         \<and> isPremiumUser (newYork (1792512000000 + 61 * msPerDay)) st' = Inr False
         \<and> isPremiumUser (newYork 1795193999999) st' = Inr True
         \<and> isPremiumUser (newYork 1795194000000) st' = Inr False"
    by blast
  from n 1 2 3 4 5 6 7 current_aliceSeen show ?thesis by blast
qed

subsection \<open>The daily count\<close>

lemma countToday_dated:
  "list_all (\<lambda>c. recordDay e c \<noteq> None) cs \<Longrightarrow> countToday e cs = Inr (countTodaySpec e cs)"
proof (induction cs)
  case Nil
  then show ?case by (simp add: countTodaySpec_def)
next
  case (Cons c cs)
  from Cons.prems obtain kvs t where c: "c = JObj kvs" and d: "getp kvs ''date'' = Some (JDate t)"
    by (auto simp: recordDay_def split: jv.splits option.splits)
  from Cons have rest: "countToday e cs = Inr (countTodaySpec e cs)" by simp
  show ?case
    by (simp add: c d rest dateOfEntry_def isToday_def toDateString_def recordDay_def
          countTodaySpec_def)
qed

lemma addConsultationHistory_single:
  assumes "getp u ''id'' = Some aliceId"
    and "historyOf u ''consultationHistory'' = Inr h"
  shows "stateAfter (addConsultationHistory e \<lparr>users = [u], session = None\<rparr> aliceId c)
     = Inr \<lparr>users = [setp u ''consultationHistory'' (JArr (JObj (newRecord e ''consult_'' c) # h))],
            session = None\<rparr>"
  using assms
  by (simp add: addConsultationHistory_def findBy_def getUsers_def seq_def aliceId_def Let_def
        saveUser_def getp_setp stateAfter_def)

lemma historyOf_setp:
  "historyOf (setp u ''consultationHistory'' (JArr xs)) ''consultationHistory'' = Inr xs"
  by (simp add: historyOf_def getp_setp)

lemma setp_setp: "setp (setp u k v) k w = setp u k w"
  by (simp add: setp_def)

lemma run_visits: "run aliceStore visits = Inr visitedStore"
proof -
  have h0: "historyOf aliceAccount ''consultationHistory'' = Inr []"
    by (simp add: historyOf_def aliceAccount_def newUser_def getp_def)
  show ?thesis
    unfolding visits_def aliceStore_def
    by (simp add: addConsultationHistory_single aliceAccount_id h0 historyOf_setp getp_setp
          setp_setp visit_def [symmetric] visitedStore_def aliceVisited_def)
qed

lemma run_nyVisits: "run aliceStore nyVisits = Inr nyStore"
proof -
  have h0: "historyOf aliceAccount ''consultationHistory'' = Inr []"
    by (simp add: historyOf_def aliceAccount_def newUser_def getp_def)
  show ?thesis
    unfolding nyVisits_def aliceStore_def
    by (simp add: addConsultationHistory_single aliceAccount_id h0 historyOf_setp getp_setp
          setp_setp nyVisit_def [symmetric] nyStore_def aliceInNewYork_def)
qed

text \<open>
  C8. For an account whose consultation history holds records with timestamps,
  \<open>getTodayConsultationCount\<close> is the number of records whose date falls on the
  calendar day of the clock, in local time, each instant being read with the offset in
  force at it. The examples after it: in Seoul, three records of the day and two of the
  day before, and the count is 3; in New York on the day of 25 hours on which daylight
  time ends, one record of the day before, one of the first hour of the day in daylight
  time and one of its last hour in standard time, and the count is 2.
\<close>

theorem getTodayConsultationCount_counts_today:
  "findBy ''id'' (Some userId) (getUsers st) = Some user
   \<and> getp user ''consultationHistory'' = Some (JArr cs)
   \<and> list_all (\<lambda>c. recordDay e c \<noteq> None) cs
   \<longrightarrow> getTodayConsultationCount e st userId = Inr (countTodaySpec e cs)"
  by (simp add: getTodayConsultationCount_def countToday_dated)

theorem getTodayConsultationCount_counts_today_witness:
  "run aliceStore visits = Inr visitedStore
   \<and> findBy ''id'' (Some aliceId) (getUsers visitedStore) = Some aliceVisited
   \<and> getp aliceVisited ''consultationHistory''
       = Some (JArr [visit 1793699000000, visit 1793650000000, visit 1793631600000,
                     visit 1793631599999, visit 1793600000000])
   \<and> map (recordDay env0)
        [visit 1793699000000, visit 1793650000000, visit 1793631600000,
         visit 1793631599999, visit 1793600000000]
       = [Some 20760, Some 20760, Some 20760, Some 20759, Some 20759]
   \<and> Day (LocalTime env0 (now env0)) = 20760
   \<and> getTodayConsultationCount env0 visitedStore aliceId = Inr 3
   \<and> run aliceStore nyVisits = Inr nyStore
   \<and> findBy ''id'' (Some aliceId) (getUsers nyStore) = Some aliceInNewYork
   \<and> getp aliceInNewYork ''consultationHistory''
       = Some (JArr [nyVisit 1793593800000, nyVisit 1793507400000, nyVisit 1793503800000])
   \<and> map (recordDay (newYork 1793552400000))
        [nyVisit 1793593800000, nyVisit 1793507400000, nyVisit 1793503800000]
       = [Some 20758, Some 20758, Some 20757]
   \<and> Day (LocalTime (newYork 1793552400000) (now (newYork 1793552400000))) = 20758
   \<and> getTodayConsultationCount (newYork 1793552400000) nyStore aliceId = Inr 2"
proof -
  have f: "findBy ''id'' (Some aliceId) (getUsers visitedStore) = Some aliceVisited"
    by (simp add: findBy_def getUsers_def visitedStore_def aliceVisited_def getp_setp
          aliceAccount_id seq_def aliceId_def)
  have h: "getp aliceVisited ''consultationHistory''
       = Some (JArr [visit 1793699000000, visit 1793650000000, visit 1793631600000,
                     visit 1793631599999, visit 1793600000000])"
    by (simp add: aliceVisited_def getp_setp)
  have day: "\<And>t. recordDay env0 (visit t) = Some ((t + 32400000) div 86400000)"
    by (simp add: recordDay_def visit_def getp_newRecord at_def Day_def LocalTime_def env0_def
          msPerDay_def)
  have days: "map (recordDay env0)
        [visit 1793699000000, visit 1793650000000, visit 1793631600000,
         visit 1793631599999, visit 1793600000000]
       = [Some 20760, Some 20760, Some 20760, Some 20759, Some 20759]"
    by (simp add: day)
  have today: "Day (LocalTime env0 (now env0)) = 20760"
    by (simp add: Day_def LocalTime_def env0_def msPerDay_def)
  have three: "countTodaySpec env0
        [visit 1793699000000, visit 1793650000000, visit 1793631600000,
         visit 1793631599999, visit 1793600000000] = 3"
    by (simp add: countTodaySpec_def today day)
  from getTodayConsultationCount_counts_today [where st = visitedStore and userId = aliceId
      and user = aliceVisited and e = env0
      and cs = "[visit 1793699000000, visit 1793650000000, visit 1793631600000,
         visit 1793631599999, visit 1793600000000]"] f h
  have seoul: "getTodayConsultationCount env0 visitedStore aliceId = Inr 3"
    by (simp add: day three)
  let ?e = "newYork 1793552400000"
  have nf: "findBy ''id'' (Some aliceId) (getUsers nyStore) = Some aliceInNewYork"
    by (simp add: findBy_def getUsers_def nyStore_def aliceInNewYork_def getp_setp
          aliceAccount_id seq_def aliceId_def)
  have nh: "getp aliceInNewYork ''consultationHistory''
       = Some (JArr [nyVisit 1793593800000, nyVisit 1793507400000, nyVisit 1793503800000])"
    by (simp add: aliceInNewYork_def getp_setp)
  have nday: "\<And>t. recordDay ?e (nyVisit t) = Some ((t + nyOffsetUTC t) div 86400000)"
    by (simp add: recordDay_def nyVisit_def getp_newRecord newYork_def Day_def LocalTime_def
          msPerDay_def)
  have ndays: "map (recordDay ?e)
        [nyVisit 1793593800000, nyVisit 1793507400000, nyVisit 1793503800000]
       = [Some 20758, Some 20758, Some 20757]"
    by (simp add: nday nyOffsetUTC_def)
  have ntoday: "Day (LocalTime ?e (now ?e)) = 20758"
    by (simp add: Day_def LocalTime_def newYork_def nyOffsetUTC_def msPerDay_def)
  have two: "countTodaySpec ?e
        [nyVisit 1793593800000, nyVisit 1793507400000, nyVisit 1793503800000] = 2"
    by (simp add: countTodaySpec_def ntoday nday nyOffsetUTC_def)
  from getTodayConsultationCount_counts_today [where st = nyStore and userId = aliceId
      and user = aliceInNewYork and e = ?e
      and cs = "[nyVisit 1793593800000, nyVisit 1793507400000, nyVisit 1793503800000]"] nf nh
  have newYork: "getTodayConsultationCount ?e nyStore aliceId = Inr 2"
    by (simp add: nday two)
  from run_visits f h days today seoul run_nyVisits nf nh ndays ntoday newYork
  show ?thesis by blast
qed

end
